theory Spec2Isabelle
  imports Complex_Main "HOL-Library.Sublist" "HOL-Library.Log_Nat"
begin

section \<open>JavaScript strings and arrays\<close>

text \<open>
  A JavaScript string is modelled as a \<open>string\<close>; one \<open>char\<close> stands for one UTF-16
  code unit, so \<open>length\<close> is the \<open>.length\<close> of the source (the model covers code units
  below 256). The helpers below are the \<open>String.prototype\<close> and \<open>Array.prototype\<close>
  methods that the two entry points (\<open>index.ts\<close> and \<open>src/stdio.mjs\<close>) call.
\<close>

text \<open>\<open>s.split(c)\<close> for a separator of one character; \<open>"".split(c)\<close> is \<open>[""]\<close>.\<close>

fun split :: "char \<Rightarrow> string \<Rightarrow> string list" where
  "split c [] = [[]]"
| "split c (x # xs) =
     (if x = c then [] # split c xs
      else (case split c xs of [] \<Rightarrow> [[x]] | p # ps \<Rightarrow> (x # p) # ps))"

text \<open>\<open>parts.join(sep)\<close>.\<close>

fun join :: "string \<Rightarrow> string list \<Rightarrow> string" where
  "join sep [] = []"
| "join sep [p] = p"
| "join sep (p # q # ps) = p @ sep @ join sep (q # ps)"

text \<open>\<open>s.endsWith(t)\<close>.\<close>

definition endsWith :: "string \<Rightarrow> string \<Rightarrow> bool" where
  "endsWith s t = (length t \<le> length s \<and> drop (length s - length t) s = t)"

text \<open>\<open>s.includes(t)\<close>: \<open>t\<close> occurs in \<open>s\<close> as a contiguous run.\<close>

fun startsWith :: "string \<Rightarrow> string \<Rightarrow> bool" where
  "startsWith s [] = True"
| "startsWith [] (y # ys) = False"
| "startsWith (x # xs) (y # ys) = (x = y \<and> startsWith xs ys)"

fun includes_str :: "string \<Rightarrow> string \<Rightarrow> bool" where
  "includes_str [] t = (t = [])"
| "includes_str (x # xs) t = (startsWith (x # xs) t \<or> includes_str xs t)"

text \<open>\<open>s.lastIndexOf(c)\<close>; \<open>None\<close> is the source's \<open>-1\<close>.\<close>

fun lastIndexOf :: "char \<Rightarrow> string \<Rightarrow> nat option" where
  "lastIndexOf c [] = None"
| "lastIndexOf c (x # xs) =
     (case lastIndexOf c xs of
        Some i \<Rightarrow> Some (Suc i)
      | None \<Rightarrow> (if x = c then Some 0 else None))"

text \<open>\<open>xs.reduce(f)\<close> with no initial value, on a non-empty array.\<close>

definition reduce1 :: "('a \<Rightarrow> 'a \<Rightarrow> 'a) \<Rightarrow> 'a \<Rightarrow> 'a list \<Rightarrow> 'a" where
  "reduce1 f x xs = foldl f x xs"

text \<open>\<open>String(n)\<close> for a non-negative integer, as a template literal prints it.\<close>

definition digit :: "nat \<Rightarrow> char" where
  "digit d = ''0123456789'' ! d"

fun decimal :: "nat \<Rightarrow> string" where
  "decimal n = (if n < 10 then [digit n] else decimal (n div 10) @ [digit (n mod 10)])"

section \<open>Credential rotator\<close>

text \<open>
  The process state that the helpers share: the module variable \<open>tokenIndex\<close>, and the
  outbound requests issued so far (URL and headers), kept so that a theorem can say
  which requests a call made. \<open>tokenIndex\<close> is a JavaScript number, exact on the
  integers below \<open>2^53\<close>; it is modelled as a \<open>nat\<close>.
\<close>

type_synonym headers = "(string \<times> string) list"

record world =
  tokenIndex :: nat
  requests :: "(string \<times> headers) list"

definition getGitHubHeaders :: "string list \<Rightarrow> world \<Rightarrow> headers \<times> world" where
  "getGitHubHeaders githubTokens w =
     (let hdrs = [(''Accept'', ''application/vnd.github.v3+json'')] in
      if length githubTokens > 0 then
        (let token = githubTokens ! (tokenIndex w mod length githubTokens);
             w' = w\<lparr>tokenIndex := tokenIndex w + 1\<rparr>
         in (hdrs @ [(''Authorization'', ''Bearer '' @ token)], w'))
      else (hdrs, w))"

text \<open>The state after \<open>n\<close> calls, and the headers that call number \<open>n\<close> (from 0) returns.\<close>

fun after_calls :: "string list \<Rightarrow> nat \<Rightarrow> world \<Rightarrow> world" where
  "after_calls githubTokens 0 w = w"
| "after_calls githubTokens (Suc n) w =
     snd (getGitHubHeaders githubTokens (after_calls githubTokens n w))"

definition nth_call :: "string list \<Rightarrow> nat \<Rightarrow> world \<Rightarrow> headers" where
  "nth_call githubTokens n w = fst (getGitHubHeaders githubTokens (after_calls githubTokens n w))"

definition initial_world :: world where
  "initial_world = \<lparr>tokenIndex = 0, requests = []\<rparr>"

section \<open>Folder resolver\<close>

text \<open>
  One entry of the Git Trees API's recursive listing: \<open>{path, type}\<close>, with \<open>type\<close> one
  of \<open>"tree"\<close> (a directory), \<open>"blob"\<close> (a file) or \<open>"commit"\<close> (a submodule).
\<close>

record tree_entry =
  tree_path :: string
  tree_type :: string

text \<open>The value \<open>{folderPath, error}\<close> that \<open>findSkillFolder\<close> resolves to.\<close>

record FolderMatch =
  folderPath :: "string option"
  findError :: "string option"

text \<open>
  How a call of an \<open>async\<close> function ends: it returns a value, it throws an \<open>Error\<close>
  with a message, or it is cut off by the bound on the depth of recursion that the model
  of \<open>collectFiles\<close> carries.
\<close>

datatype 'a outcome = Returned 'a | Threw string | Diverged

text \<open>Tier 1 of both entry points: directories whose last path component is \<open>skillId\<close>.\<close>

definition exactCandidates :: "tree_entry list \<Rightarrow> string \<Rightarrow> string list" where
  "exactCandidates tree skillId =
     map tree_path
       (filter (\<lambda>e. tree_type e = ''tree'' \<and>
                     (tree_path e = skillId \<or> endsWith (tree_path e) (''/'' @ skillId)))
          tree)"

definition shorter :: "string \<Rightarrow> string \<Rightarrow> string" where
  "shorter a b = (if length a \<le> length b then a else b)"

text \<open>
  The test \<open>/SKILL\.md$/i\<close>. Without the \<open>u\<close> flag, the \<open>i\<close> flag compares the
  upper-case forms of pattern and input characters (ECMAScript's Canonicalize), which on the
  characters of this pattern identifies exactly a letter \<open>a\<close>..\<open>z\<close> with its capital.
\<close>

definition canonicalize :: "char \<Rightarrow> char" where
  "canonicalize c =
     (case map_of (zip ''abcdefghijklmnopqrstuvwxyz'' ''ABCDEFGHIJKLMNOPQRSTUVWXYZ'') c of
        Some u \<Rightarrow> u
      | None \<Rightarrow> c)"

definition test_SKILL_md :: "string \<Rightarrow> bool" where
  "test_SKILL_md p = endsWith (map canonicalize p) (map canonicalize ''SKILL.md'')"

definition isSkillMd :: "tree_entry \<Rightarrow> bool" where
  "isSkillMd e = (tree_type e = ''blob'' \<and> test_SKILL_md (tree_path e))"

text \<open>\<open>lastSlash === -1 ? "" : e.path.substring(0, lastSlash)\<close>.\<close>

definition parentFolder :: "string \<Rightarrow> string" where
  "parentFolder p = (case lastIndexOf CHR ''/'' p of None \<Rightarrow> [] | Some i \<Rightarrow> take i p)"

text \<open>\<open>folderPath.split("/").pop() || ""\<close>.\<close>

definition folderNameOf :: "string \<Rightarrow> string" where
  "folderNameOf p = (case rev (split CHR ''/'' p) of [] \<Rightarrow> [] | x # _ \<Rightarrow> x)"

text \<open>
  \<open>new Set(xs)\<close>: the elements of \<open>xs\<close> added one by one, in order; the length of the
  list is the set's \<open>size\<close>.
\<close>

definition new_Set :: "'a list \<Rightarrow> 'a list" where
  "new_Set xs = foldl (\<lambda>s x. if x \<in> set s then s else s @ [x]) [] xs"

text \<open>\<open>new Set(s.split("-").filter(Boolean))\<close>: the empty pieces are dropped.\<close>

definition tokens :: "string \<Rightarrow> string list" where
  "tokens s = new_Set (filter (\<lambda>t. t \<noteq> []) (split CHR ''-'' s))"

text \<open>
  A score is a JavaScript number, an IEEE 754 double. A finite double is modelled as the
  rational that it denotes, and \<open>None\<close> stands for \<open>NaN\<close>, which \<open>0 / 0\<close> yields when
  both token sets are empty. (A quotient \<open>n / 0\<close> with \<open>n > 0\<close> cannot arise: the
  common tokens are among the folder's.) Each arithmetic operation of the source
  returns the double nearest to the exact result, ties going to the even significand:
  \<open>to_double\<close> of the exact result. The values that arise are sizes of sets, their
  quotients and sums below 101, far from overflow and from the subnormal range, so
  \<open>to_double\<close> rounds to 53 significant bits with no bound on the exponent.
\<close>

definition round_even :: "rat \<Rightarrow> int" where
  "round_even y =
     (let f = \<lfloor>y\<rfloor>; r = y - of_int f
      in if r < 1 / 2 then f else if 1 / 2 < r then f + 1 else if even f then f else f + 1)"

text \<open>For \<open>x > 0\<close>, the \<open>e\<close> with \<open>2^e \<le> x < 2^(e + 1)\<close>.\<close>

definition exponent :: "rat \<Rightarrow> int" where
  "exponent x =
     (let (p, q) = quotient_of x; d = bitlen p - bitlen q
      in if 2 powi d \<le> x then d else d - 1)"

definition to_double :: "rat \<Rightarrow> rat" where
  "to_double x =
     (if x = 0 then 0
      else (let a = \<bar>x\<bar>; u = 2 powi (exponent a - 52)
            in sgn x * of_int (round_even (a / u)) * u))"

type_synonym number = "rat option"

record candidate =
  cand_folderPath :: string
  cand_folderName :: string
  cand_score :: number

definition divide_sizes :: "nat \<Rightarrow> nat \<Rightarrow> number" where
  "divide_sizes n d = (if d = 0 then None else Some (to_double (of_nat n / of_nat d)))"

definition score_candidate :: "string \<Rightarrow> string \<Rightarrow> candidate" where
  "score_candidate skillId fp =
     (let skillIdTokens = tokens skillId;
          folderName = folderNameOf fp;
          folderTokens = tokens folderName;
          commonTokens = new_Set (filter (\<lambda>t. t \<in> set skillIdTokens) folderTokens);
          score = divide_sizes (length commonTokens)
                    (max (length folderTokens) (length skillIdTokens));
          score' = (if includes_str skillId folderName \<or> includes_str folderName skillId
                    then map_option (\<lambda>s. min (to_double (s + 1 / 2)) 1) score
                    else score)
      in \<lparr>cand_folderPath = fp, cand_folderName = folderName, cand_score = score'\<rparr>)"

text \<open>
  \<open>candidates.sort((a, b) => b.score - a.score)\<close>. \<open>sorts_before a b\<close> says that the
  comparator is negative at \<open>(a, b)\<close>; a \<open>NaN\<close> result counts as \<open>+0\<close>. ECMAScript
  requires the sort to be stable, so wherever the comparator is consistent (no score is
  \<open>NaN\<close>) every implementation returns the array that this insertion sort returns.
\<close>

definition sorts_before :: "candidate \<Rightarrow> candidate \<Rightarrow> bool" where
  "sorts_before a b =
     (case (cand_score a, cand_score b) of
        (Some x, Some y) \<Rightarrow> to_double (y - x) < 0
      | _ \<Rightarrow> False)"

fun insert_sorted :: "candidate \<Rightarrow> candidate list \<Rightarrow> candidate list" where
  "insert_sorted a [] = [a]"
| "insert_sorted a (b # bs) =
     (if sorts_before b a then b # insert_sorted a bs else a # b # bs)"

definition sort_candidates :: "candidate list \<Rightarrow> candidate list" where
  "sort_candidates cs = foldr insert_sorted cs []"

text \<open>
  \<open>Math.round(best.score * 100)\<close> inside the template literal: the product is a
  double, and \<open>Math.round\<close> is the nearest integer, the greater one at a tie.
\<close>

definition percent :: "number \<Rightarrow> string" where
  "percent s =
     (case s of
        None \<Rightarrow> ''NaN''
      | Some x \<Rightarrow> decimal (nat \<lfloor>to_double (x * 100) + 1 / 2\<rfloor>))"

text \<open>\<open>best.score >= 0.30\<close>; the literal is the double nearest to \<open>3/10\<close>.\<close>

definition at_least_030 :: "number \<Rightarrow> bool" where
  "at_least_030 s = (case s of None \<Rightarrow> False | Some x \<Rightarrow> to_double (3 / 10) \<le> x)"

text \<open>Tier 4 of \<open>src/stdio.mjs\<close>, from \<open>skillIdTokens\<close> to the end of the function.\<close>

definition fuzzyMatch :: "string list \<Rightarrow> string \<Rightarrow> FolderMatch outcome" where
  "fuzzyMatch skillFolders skillId =
     (case sort_candidates (map (score_candidate skillId) skillFolders) of
        [] \<Rightarrow> Threw ''Cannot read properties of undefined (reading 'score')''
      | best # _ \<Rightarrow>
          (if at_least_030 (cand_score best)
           then Returned \<lparr>folderPath = Some (cand_folderPath best), findError = None\<rparr>
           else Returned \<lparr>folderPath = None,
                  findError = Some (''No matching skill folder found (best match: '' @
                    cand_folderName best @ '' at '' @ percent (cand_score best) @ ''%)'')\<rparr>))"

text \<open>
  \<open>findSkillFolder\<close> of \<open>src/stdio.mjs\<close>, from the line that reads \<open>data.tree\<close>: the
  four tiers over the fetched tree.
\<close>

definition resolveFolder :: "tree_entry list \<Rightarrow> string \<Rightarrow> FolderMatch outcome" where
  "resolveFolder tree skillId =
     (case exactCandidates tree skillId of
        c # cs \<Rightarrow> Returned \<lparr>folderPath = Some (reduce1 shorter c cs), findError = None\<rparr>
      | [] \<Rightarrow>
          (let skillMdEntries = filter isSkillMd tree in
           if length skillMdEntries = 0
           then Returned \<lparr>folderPath = None,
                  findError = Some ''No SKILL.md files found in repository''\<rparr>
           else
             (let skillFolders = map (\<lambda>e. parentFolder (tree_path e)) skillMdEntries in
              if length skillFolders = 1
              then Returned \<lparr>folderPath = Some (skillFolders ! 0), findError = None\<rparr>
              else fuzzyMatch skillFolders skillId)))"

text \<open>The same part of \<open>findSkillFolder\<close> in \<open>index.ts\<close>, which has the first tier only.\<close>

definition resolveFolder_http :: "tree_entry list \<Rightarrow> string \<Rightarrow> FolderMatch outcome" where
  "resolveFolder_http tree skillId =
     (case exactCandidates tree skillId of
        [] \<Rightarrow> Returned \<lparr>folderPath = None,
                 findError = Some ''Skill folder not found in repository''\<rparr>
      | c # cs \<Rightarrow> Returned \<lparr>folderPath = Some (reduce1 shorter c cs), findError = None\<rparr>)"

section \<open>The code-hosting API\<close>

text \<open>
  What the remote side answers, by URL. A response of the tree endpoint is: the \<open>fetch\<close>
  promise rejects (or the body is not JSON), status 403 with the body's \<open>message\<close> if it
  has one, another status outside 200..299, or success with \<open>data.tree ?? []\<close>.
\<close>

datatype tree_response =
  TreeRejected string
| Tree403 "string option"
| TreeStatus nat
| TreeOk "tree_entry list"

text \<open>One entry of a Contents API listing: \<open>{type, path, name, download_url}\<close>.\<close>

record item =
  item_type :: string
  item_path :: "string option"
  item_name :: "string option"
  download_url :: "string option"

text \<open>
  A response of the contents endpoint; \<open>ContentsOk None\<close> is a success whose JSON body
  is not an array.
\<close>

datatype contents_response =
  ContentsRejected string
| Contents403 "string option"
| ContentsNotOk
| ContentsOk "item list option"

text \<open>A response to the download of a raw file: failure of any kind, or the text.\<close>

datatype raw_response = RawRejected | RawNotOk | RawOk string

record remote =
  tree_api :: "string \<Rightarrow> tree_response"
  contents_api :: "string \<Rightarrow> contents_response"
  raw_api :: "string \<Rightarrow> raw_response"

definition GITHUB_API_URL :: string where
  "GITHUB_API_URL = ''https://api.github.com''"

text \<open>\<open>fetch(url, {headers: getGitHubHeaders()})\<close>: takes a credential and issues the request.\<close>

definition github_request :: "string list \<Rightarrow> string \<Rightarrow> world \<Rightarrow> world" where
  "github_request githubTokens url w =
     (let (hdrs, w') = getGitHubHeaders githubTokens w
      in w'\<lparr>requests := requests w' @ [(url, hdrs)]\<rparr>)"

definition rate_limit_message :: "string option \<Rightarrow> string" where
  "rate_limit_message m = (case m of Some t \<Rightarrow> t | None \<Rightarrow> ''GitHub rate limit exceeded'')"

definition findSkillFolder ::
  "remote \<Rightarrow> string list \<Rightarrow> string \<Rightarrow> string \<Rightarrow> world \<Rightarrow> FolderMatch outcome \<times> world" where
  "findSkillFolder r githubTokens source skillId w =
     (let url = GITHUB_API_URL @ ''/repos/'' @ source @ ''/git/trees/HEAD?recursive=1'';
          w' = github_request githubTokens url w
      in case tree_api r url of
           TreeRejected m \<Rightarrow> (Threw m, w')
         | Tree403 m \<Rightarrow>
             (Returned \<lparr>folderPath = None, findError = Some (rate_limit_message m)\<rparr>, w')
         | TreeStatus n \<Rightarrow>
             (Returned \<lparr>folderPath = None,
                findError = Some (''GitHub Trees API returned '' @ decimal n)\<rparr>, w')
         | TreeOk tree \<Rightarrow> (resolveFolder tree skillId, w'))"

definition findSkillFolder_http ::
  "remote \<Rightarrow> string list \<Rightarrow> string \<Rightarrow> string \<Rightarrow> world \<Rightarrow> FolderMatch outcome \<times> world" where
  "findSkillFolder_http r githubTokens source skillId w =
     (let url = GITHUB_API_URL @ ''/repos/'' @ source @ ''/git/trees/HEAD?recursive=1'';
          w' = github_request githubTokens url w
      in case tree_api r url of
           TreeRejected m \<Rightarrow> (Threw m, w')
         | Tree403 m \<Rightarrow>
             (Returned \<lparr>folderPath = None, findError = Some (rate_limit_message m)\<rparr>, w')
         | TreeStatus n \<Rightarrow>
             (Returned \<lparr>folderPath = None,
                findError = Some (''GitHub Trees API returned '' @ decimal n)\<rparr>, w')
         | TreeOk tree \<Rightarrow> (resolveFolder_http tree skillId, w'))"

definition fetchFolderContents ::
  "remote \<Rightarrow> string list \<Rightarrow> string \<Rightarrow> string \<Rightarrow> world \<Rightarrow> item list option outcome \<times> world" where
  "fetchFolderContents r githubTokens source path w =
     (let url = GITHUB_API_URL @ ''/repos/'' @ source @ ''/contents/'' @ path;
          w' = github_request githubTokens url w
      in case contents_api r url of
           ContentsRejected m \<Rightarrow> (Threw m, w')
         | Contents403 m \<Rightarrow> (Threw (rate_limit_message m), w')
         | ContentsNotOk \<Rightarrow> (Returned None, w')
         | ContentsOk items \<Rightarrow> (Returned items, w'))"

text \<open>\<open>fetchFileContent\<close>: the request carries no headers; every failure is \<open>null\<close>.\<close>

definition fetchFileContent :: "remote \<Rightarrow> string \<Rightarrow> world \<Rightarrow> string option \<times> world" where
  "fetchFileContent r downloadUrl w =
     (let w' = w\<lparr>requests := requests w @ [(downloadUrl, [])]\<rparr>
      in case raw_api r downloadUrl of
           RawOk t \<Rightarrow> (Some t, w')
         | RawNotOk \<Rightarrow> (None, w')
         | RawRejected \<Rightarrow> (None, w'))"

section \<open>Recursive collector\<close>

record FileRecord =
  file_path :: string
  file_name :: string
  file_content :: string

text \<open>JavaScript truthiness of a string that may be \<open>null\<close> or \<open>undefined\<close>.\<close>

definition truthy :: "string option \<Rightarrow> bool" where
  "truthy s = (case s of None \<Rightarrow> False | Some t \<Rightarrow> t \<noteq> [])"

definition or_empty :: "string option \<Rightarrow> string" where
  "or_empty s = (case s of None \<Rightarrow> [] | Some t \<Rightarrow> t)"

text \<open>The callback that \<open>collectFiles\<close> maps over the file entries.\<close>

definition downloadEntry :: "remote \<Rightarrow> item \<Rightarrow> world \<Rightarrow> FileRecord option \<times> world" where
  "downloadEntry r entry w =
     (if \<not> truthy (download_url entry) then (None, w)
      else
        (case fetchFileContent r (or_empty (download_url entry)) w of
           (None, w') \<Rightarrow> (None, w')
         | (Some content, w') \<Rightarrow>
             (Some \<lparr>file_path = or_empty (item_path entry),
                    file_name = or_empty (item_name entry),
                    file_content = content\<rparr>, w')))"

text \<open>
  \<open>Promise.all(fileEntries.map(...))\<close>: each callback runs up to its \<open>fetch\<close> when it is
  called, so the downloads are issued in the order of the entries, and the results come
  back in that order.
\<close>

fun downloadAll :: "remote \<Rightarrow> item list \<Rightarrow> world \<Rightarrow> FileRecord option list \<times> world" where
  "downloadAll r [] w = ([], w)"
| "downloadAll r (entry # entries) w =
     (let (f, w') = downloadEntry r entry w;
          (fs, w'') = downloadAll r entries w'
      in (f # fs, w''))"

text \<open>\<open>fileResults.filter((f) => f !== null)\<close>.\<close>

fun non_null :: "'a option list \<Rightarrow> 'a list" where
  "non_null [] = []"
| "non_null (None # xs) = non_null xs"
| "non_null (Some x # xs) = x # non_null xs"

text \<open>
  The loop \<open>for (const dir of dirEntries)\<close> of \<open>collectFiles\<close>; \<open>files\<close> is the array
  built so far, and \<open>recurse\<close> is the recursive call of \<open>collectFiles\<close> on a listing.
\<close>

fun collectDirs ::
  "(item list \<Rightarrow> world \<Rightarrow> FileRecord list outcome \<times> world) \<Rightarrow> remote \<Rightarrow> string list \<Rightarrow>
     string \<Rightarrow> item list \<Rightarrow> FileRecord list \<Rightarrow> world \<Rightarrow> FileRecord list outcome \<times> world" where
  "collectDirs recurse r githubTokens source [] files w = (Returned files, w)"
| "collectDirs recurse r githubTokens source (dir # dirs) files w =
     (if \<not> truthy (item_path dir) then collectDirs recurse r githubTokens source dirs files w
      else
        (case fetchFolderContents r githubTokens source (or_empty (item_path dir)) w of
           (Returned None, w') \<Rightarrow> collectDirs recurse r githubTokens source dirs files w'
         | (Returned (Some subItems), w') \<Rightarrow>
             (case recurse subItems w' of
                (Returned subFiles, w'') \<Rightarrow>
                  collectDirs recurse r githubTokens source dirs (files @ subFiles) w''
              | (Threw m, w'') \<Rightarrow> (Threw m, w'')
              | (Diverged, w'') \<Rightarrow> (Diverged, w''))
         | (Threw m, w') \<Rightarrow> (Threw m, w')
         | (Diverged, w') \<Rightarrow> (Diverged, w')))"

text \<open>
  \<open>collectFiles\<close>. The recursion follows the listings that the remote side returns,
  which nothing bounds; the first argument bounds its depth, and a run that would go
  deeper ends as \<open>Diverged\<close>.
\<close>

primrec collectFiles ::
  "nat \<Rightarrow> remote \<Rightarrow> string list \<Rightarrow> string \<Rightarrow> item list \<Rightarrow> world \<Rightarrow>
     FileRecord list outcome \<times> world" where
  "collectFiles 0 r githubTokens source items w = (Diverged, w)"
| "collectFiles (Suc depth) r githubTokens source items w =
     (let fileEntries = filter (\<lambda>f. item_type f = ''file'') items;
          dirEntries = filter (\<lambda>f. item_type f = ''dir'') items;
          (fileResults, w') = downloadAll r fileEntries w
      in collectDirs (\<lambda>subItems w''. collectFiles depth r githubTokens source subItems w'')
           r githubTokens source dirEntries (non_null fileResults) w')"

section \<open>Skill detail orchestrator\<close>

record SkillDetailResult =
  res_id :: string
  res_files :: "FileRecord list"
  res_error :: "string option"

definition failed :: "string \<Rightarrow> string \<Rightarrow> SkillDetailResult" where
  "failed skillId msg = \<lparr>res_id = skillId, res_files = [], res_error = Some msg\<rparr>"

text \<open>
  The part of \<open>fetchSkillDetails\<close> after the folder is resolved, the same in both entry
  points: the listing of the resolved folder, then \<open>collectFiles\<close> inside \<open>try\<close>.
\<close>

definition fetchResolved ::
  "nat \<Rightarrow> remote \<Rightarrow> string list \<Rightarrow> string \<Rightarrow> string \<Rightarrow> string \<Rightarrow> world \<Rightarrow>
     SkillDetailResult outcome \<times> world" where
  "fetchResolved depth r githubTokens skillId source fp w =
     (case fetchFolderContents r githubTokens source fp w of
        (Threw m, w') \<Rightarrow> (Threw m, w')
      | (Diverged, w') \<Rightarrow> (Diverged, w')
      | (Returned None, w') \<Rightarrow>
          (Returned (failed skillId ''Could not fetch folder contents from GitHub''), w')
      | (Returned (Some folderItems), w') \<Rightarrow>
          (case collectFiles depth r githubTokens source folderItems w' of
             (Returned files, w'') \<Rightarrow>
               (Returned \<lparr>res_id = skillId, res_files = files, res_error = None\<rparr>, w'')
           | (Threw m, w'') \<Rightarrow> (Returned (failed skillId m), w'')
           | (Diverged, w'') \<Rightarrow> (Diverged, w'')))"

definition invalid_format :: "string \<Rightarrow> string" where
  "invalid_format skillId =
     ''Invalid skill ID format. Expected '' @ [CHR 0x22] @ ''owner/repo/skillId'' @ [CHR 0x22] @
     '', got '' @ [CHR 0x22] @ skillId @ [CHR 0x22]"

text \<open>\<open>fetchSkillDetails\<close> of \<open>src/stdio.mjs\<close>.\<close>

definition fetchSkillDetails ::
  "nat \<Rightarrow> remote \<Rightarrow> string list \<Rightarrow> string \<Rightarrow> world \<Rightarrow> SkillDetailResult outcome \<times> world" where
  "fetchSkillDetails depth r githubTokens skillId w =
     (let parts = split CHR ''/'' skillId in
      if length parts < 3 then (Returned (failed skillId (invalid_format skillId)), w)
      else
        (let source = parts ! 0 @ ''/'' @ parts ! 1;
             skillName = join ''/'' (drop 2 parts)
         in case findSkillFolder r githubTokens source skillName w of
              (Threw m, w') \<Rightarrow> (Threw m, w')
            | (Diverged, w') \<Rightarrow> (Diverged, w')
            | (Returned fm, w') \<Rightarrow>
                (if truthy (findError fm) \<or> folderPath fm = None
                 then (Returned (failed skillId
                         (case findError fm of Some e \<Rightarrow> e | None \<Rightarrow> ''Skill folder not found'')), w')
                 else fetchResolved depth r githubTokens skillId source
                        (or_empty (folderPath fm)) w')))"

text \<open>\<open>fetchSkillDetails\<close> of \<open>index.ts\<close>, whose test is \<open>findError || !folderPath\<close>.\<close>

definition fetchSkillDetails_http ::
  "nat \<Rightarrow> remote \<Rightarrow> string list \<Rightarrow> string \<Rightarrow> world \<Rightarrow> SkillDetailResult outcome \<times> world" where
  "fetchSkillDetails_http depth r githubTokens skillId w =
     (let parts = split CHR ''/'' skillId in
      if length parts < 3 then (Returned (failed skillId (invalid_format skillId)), w)
      else
        (let source = parts ! 0 @ ''/'' @ parts ! 1;
             skillName = join ''/'' (drop 2 parts)
         in case findSkillFolder_http r githubTokens source skillName w of
              (Threw m, w') \<Rightarrow> (Threw m, w')
            | (Diverged, w') \<Rightarrow> (Diverged, w')
            | (Returned fm, w') \<Rightarrow>
                (if truthy (findError fm) \<or> \<not> truthy (folderPath fm)
                 then (Returned (failed skillId
                         (case findError fm of Some e \<Rightarrow> e | None \<Rightarrow> ''Skill folder not found'')), w')
                 else fetchResolved depth r githubTokens skillId source
                        (or_empty (folderPath fm)) w')))"

section \<open>The tool \<open>get-skill-details\<close>\<close>

text \<open>
  What the handler answers: the results (the JSON text of \<open>{skills: results}\<close>), or an
  error response with a message.
\<close>

datatype tool_response = ToolResult "SkillDetailResult list" | ToolError string

text \<open>
  \<open>skill_ids.map(fetchSkillDetails)\<close>: the calls are started in the order of the
  identifiers; the model runs each to its end before the next starts.
\<close>

fun fetchEach ::
  "(string \<Rightarrow> world \<Rightarrow> SkillDetailResult outcome \<times> world) \<Rightarrow> string list \<Rightarrow> world \<Rightarrow>
     SkillDetailResult outcome list \<times> world" where
  "fetchEach f [] w = ([], w)"
| "fetchEach f (i # ids) w =
     (let (x, w') = f i w;
          (xs, w'') = fetchEach f ids w'
      in (x # xs, w''))"

text \<open>
  \<open>Promise.all\<close>: rejects as soon as one promise rejects (here: with the first rejection
  in the order of the array), never settles if none rejects and one never settles, and
  otherwise fulfils with the values in the order of the array.
\<close>

fun promise_all :: "'a outcome list \<Rightarrow> 'a list outcome" where
  "promise_all [] = Returned []"
| "promise_all (Threw m # xs) = Threw m"
| "promise_all (Returned v # xs) =
     (case promise_all xs of
        Returned vs \<Rightarrow> Returned (v # vs)
      | Threw m \<Rightarrow> Threw m
      | Diverged \<Rightarrow> Diverged)"
| "promise_all (Diverged # xs) =
     (case promise_all xs of
        Threw m \<Rightarrow> Threw m
      | Returned vs \<Rightarrow> Diverged
      | Diverged \<Rightarrow> Diverged)"

text \<open>The handler of \<open>src/stdio.mjs\<close>; \<open>None\<close> when it never answers.\<close>

definition get_skill_details ::
  "nat \<Rightarrow> remote \<Rightarrow> string list \<Rightarrow> string list \<Rightarrow> world \<Rightarrow> tool_response option \<times> world" where
  "get_skill_details depth r githubTokens skill_ids w =
     (let (xs, w') = fetchEach (fetchSkillDetails depth r githubTokens) skill_ids w
      in case promise_all xs of
           Returned results \<Rightarrow> (Some (ToolResult results), w')
         | Threw m \<Rightarrow> (Some (ToolError (''Error: '' @ m)), w')
         | Diverged \<Rightarrow> (None, w'))"

text \<open>
  The handler of \<open>index.ts\<close>; the optional progress reports are left out.
\<close>

definition get_skill_details_http ::
  "nat \<Rightarrow> remote \<Rightarrow> string list \<Rightarrow> string list \<Rightarrow> world \<Rightarrow> tool_response option \<times> world" where
  "get_skill_details_http depth r githubTokens skill_ids w =
     (let (xs, w') = fetchEach (fetchSkillDetails_http depth r githubTokens) skill_ids w
      in case promise_all xs of
           Returned results \<Rightarrow> (Some (ToolResult results), w')
         | Threw m \<Rightarrow> (Some (ToolError (''Failed to fetch skill details: '' @ m)), w')
         | Diverged \<Rightarrow> (None, w'))"

section \<open>Notions of the specification\<close>

text \<open>
  The definitions of this section follow the words of the specification, not the code;
  the theorems compare the code with them.
\<close>

text \<open>
  Lower case, as "compared case-insensitively" reads: a capital \<open>A\<close>..\<open>Z\<close> becomes its
  small letter, every other character stays.
\<close>

definition lower_case :: "char \<Rightarrow> char" where
  "lower_case c =
     (case map_of (zip ''ABCDEFGHIJKLMNOPQRSTUVWXYZ'' ''abcdefghijklmnopqrstuvwxyz'') c of
        Some l \<Rightarrow> l
      | None \<Rightarrow> c)"

text \<open>
  The fuzzy score, over the sets of non-empty \<open>-\<close>-separated tokens: the size of the
  intersection over the larger of the two sizes, plus \<open>0.5\<close>, capped at \<open>1\<close>, when one
  string occurs in the other (\<open>sublist\<close>: as a contiguous run). \<open>exact_score\<close> is this
  formula in exact arithmetic; \<open>double_score\<close> is the same formula in double
  arithmetic, the quotient and the sum each rounded to the nearest double.
\<close>

definition token_set :: "string \<Rightarrow> string set" where
  "token_set s = set (split CHR ''-'' s) - {[]}"

definition exact_score :: "string \<Rightarrow> string \<Rightarrow> rat" where
  "exact_score folderName skillId =
     (let base = of_nat (card (token_set folderName \<inter> token_set skillId)) /
                 of_nat (max (card (token_set folderName)) (card (token_set skillId)))
      in if sublist folderName skillId \<or> sublist skillId folderName
         then min (base + 1 / 2) 1 else base)"

definition double_score :: "string \<Rightarrow> string \<Rightarrow> rat" where
  "double_score folderName skillId =
     (let base = to_double
                   (of_nat (card (token_set folderName \<inter> token_set skillId)) /
                    of_nat (max (card (token_set folderName)) (card (token_set skillId))))
      in if sublist folderName skillId \<or> sublist skillId folderName
         then min (to_double (base + 1 / 2)) 1 else base)"

text \<open>
  A file entry of a listing can be downloaded when it has a download reference and the
  download succeeds; the record of such an entry holds its path, its name and the text
  that came back.
\<close>

definition downloadable :: "remote \<Rightarrow> item \<Rightarrow> bool" where
  "downloadable r e =
     (truthy (download_url e) \<and>
      (case raw_api r (or_empty (download_url e)) of RawOk t \<Rightarrow> True | _ \<Rightarrow> False))"

definition record_of :: "remote \<Rightarrow> item \<Rightarrow> FileRecord" where
  "record_of r e =
     \<lparr>file_path = or_empty (item_path e), file_name = or_empty (item_name e),
      file_content = (case raw_api r (or_empty (download_url e)) of RawOk t \<Rightarrow> t | _ \<Rightarrow> [])\<rparr>"

text \<open>
  The collector as the specification describes it, with no state: the listing of a path
  is what the contents endpoint answers (\<open>null\<close> on a status that is not a success, an
  exception on 403); the files collected from a listing are the records of its file
  entries that can be downloaded, followed by what each subdirectory yields in turn,
  merged into one flat list. An exception in a subdirectory ends the collection. The
  first argument bounds the depth of the directories, as it does in the model of the code.
\<close>

definition listing_of :: "remote \<Rightarrow> string \<Rightarrow> string \<Rightarrow> item list option outcome" where
  "listing_of r source path =
     (case contents_api r (GITHUB_API_URL @ ''/repos/'' @ source @ ''/contents/'' @ path) of
        ContentsRejected m \<Rightarrow> Threw m
      | Contents403 m \<Rightarrow> Threw (rate_limit_message m)
      | ContentsNotOk \<Rightarrow> Returned None
      | ContentsOk items \<Rightarrow> Returned items)"

fun merged :: "'a list \<Rightarrow> 'a list outcome list \<Rightarrow> 'a list outcome" where
  "merged acc [] = Returned acc"
| "merged acc (Returned xs # rest) = merged (acc @ xs) rest"
| "merged acc (Threw m # rest) = Threw m"
| "merged acc (Diverged # rest) = Diverged"

primrec collected :: "nat \<Rightarrow> remote \<Rightarrow> string \<Rightarrow> item list \<Rightarrow> FileRecord list outcome" where
  "collected 0 r source items = Diverged"
| "collected (Suc depth) r source items =
     merged
       (map (record_of r) (filter (downloadable r) (filter (\<lambda>f. item_type f = ''file'') items)))
       (map (\<lambda>dir. case listing_of r source (or_empty (item_path dir)) of
                      Returned None \<Rightarrow> Returned []
                    | Returned (Some subItems) \<Rightarrow> collected depth r source subItems
                    | Threw m \<Rightarrow> Threw m
                    | Diverged \<Rightarrow> Diverged)
          (filter (\<lambda>f. truthy (item_path f)) (filter (\<lambda>f. item_type f = ''dir'') items)))"

section \<open>Example inputs\<close>

text \<open>Three directories named \<open>pdf\<close>, the deepest listed first.\<close>

definition example_tree :: "tree_entry list" where
  "example_tree =
     [\<lparr>tree_path = ''skills'', tree_type = ''tree''\<rparr>,
      \<lparr>tree_path = ''skills/deep/pdf'', tree_type = ''tree''\<rparr>,
      \<lparr>tree_path = ''skills/pdf'', tree_type = ''tree''\<rparr>,
      \<lparr>tree_path = ''skills/pdf/SKILL.md'', tree_type = ''blob''\<rparr>,
      \<lparr>tree_path = ''vendor/pdf'', tree_type = ''tree''\<rparr>,
      \<lparr>tree_path = ''vendor/pdf-tools/SKILL.md'', tree_type = ''blob''\<rparr>]"

text \<open>The repository of the specification's end-to-end example: one manifest.\<close>

definition lone_manifest_tree :: "tree_entry list" where
  "lone_manifest_tree =
     [\<lparr>tree_path = ''README.md'', tree_type = ''blob''\<rparr>,
      \<lparr>tree_path = ''tools'', tree_type = ''tree''\<rparr>,
      \<lparr>tree_path = ''tools/code-review'', tree_type = ''tree''\<rparr>,
      \<lparr>tree_path = ''tools/code-review/SKILL.md'', tree_type = ''blob''\<rparr>,
      \<lparr>tree_path = ''tools/code-review/checklist.md'', tree_type = ''blob''\<rparr>]"

text \<open>Two skills, each with its manifest.\<close>

definition two_skill_tree :: "tree_entry list" where
  "two_skill_tree =
     [\<lparr>tree_path = ''skills'', tree_type = ''tree''\<rparr>,
      \<lparr>tree_path = ''skills/web-search'', tree_type = ''tree''\<rparr>,
      \<lparr>tree_path = ''skills/web-search/SKILL.md'', tree_type = ''blob''\<rparr>,
      \<lparr>tree_path = ''skills/pdf-tools'', tree_type = ''tree''\<rparr>,
      \<lparr>tree_path = ''skills/pdf-tools/SKILL.md'', tree_type = ''blob''\<rparr>]"

text \<open>
  A remote side on which every repository has a directory \<open>c\<close>, and every listing of
  contents is answered with status 403.
\<close>

definition rate_limited_remote :: remote where
  "rate_limited_remote =
     \<lparr>tree_api = (\<lambda>url. TreeOk [\<lparr>tree_path = ''c'', tree_type = ''tree''\<rparr>]),
      contents_api = (\<lambda>url. Contents403 None),
      raw_api = (\<lambda>url. RawNotOk)\<rparr>"

text \<open>
  A remote side on which every repository has a directory \<open>c\<close> that holds one file,
  except that the listing of \<open>c\<close> in the repository \<open>p/q\<close> is answered with status 403;
  every download succeeds but that of \<open>gone.md\<close>.
\<close>

definition mixed_remote :: remote where
  "mixed_remote =
     \<lparr>tree_api = (\<lambda>url. TreeOk [\<lparr>tree_path = ''c'', tree_type = ''tree''\<rparr>]),
      contents_api = (\<lambda>url.
        if url = ''https://api.github.com/repos/p/q/contents/c'' then Contents403 None
        else ContentsOk (Some [\<lparr>item_type = ''file'', item_path = Some ''c/SKILL.md'',
                                 item_name = Some ''SKILL.md'',
                                 download_url = Some ''https://raw.example/SKILL.md''\<rparr>])),
      raw_api = (\<lambda>url. if url = ''https://raw.example/gone.md'' then RawNotOk
                       else RawOk ''# skill'')\<rparr>"

text \<open>
  A listing of three file entries: \<open>a.md\<close> has no download reference, \<open>b.md\<close> and
  \<open>c.md\<close> have one. A fourth entry, \<open>gone.md\<close>, has a reference whose download fails.
\<close>

definition three_files :: "item list" where
  "three_files =
     [\<lparr>item_type = ''file'', item_path = Some ''s/a.md'', item_name = Some ''a.md'',
       download_url = None\<rparr>,
      \<lparr>item_type = ''file'', item_path = Some ''s/b.md'', item_name = Some ''b.md'',
       download_url = Some ''https://raw.example/b.md''\<rparr>,
      \<lparr>item_type = ''file'', item_path = Some ''s/c.md'', item_name = Some ''c.md'',
       download_url = Some ''https://raw.example/c.md''\<rparr>]"

definition gone_file :: item where
  "gone_file =
     \<lparr>item_type = ''file'', item_path = Some ''s/gone.md'', item_name = Some ''gone.md'',
      download_url = Some ''https://raw.example/gone.md''\<rparr>"

text \<open>
  A listing that holds a file whose download fails, a subdirectory \<open>c\<close> and a file that
  can be downloaded.
\<close>

definition nested_listing :: "item list" where
  "nested_listing =
     [gone_file,
      \<lparr>item_type = ''dir'', item_path = Some ''c'', item_name = Some ''c'', download_url = None\<rparr>,
      \<lparr>item_type = ''file'', item_path = Some ''b.md'', item_name = Some ''b.md'',
       download_url = Some ''https://raw.example/b.md''\<rparr>]"

section \<open>Properties of the credential rotator\<close>

lemma after_calls_tokenIndex:
  "githubTokens \<noteq> [] \<Longrightarrow>
     after_calls githubTokens n w = w\<lparr>tokenIndex := tokenIndex w + n\<rparr>"
  by (induction n) (simp_all add: getGitHubHeaders_def Let_def)

lemma after_calls_empty: "after_calls [] n w = w"
  by (induction n) (simp_all add: getGitHubHeaders_def)

lemma nth_call_eq:
  "nth_call ts n w =
     (if ts = [] then [(''Accept'', ''application/vnd.github.v3+json'')]
      else [(''Accept'', ''application/vnd.github.v3+json''),
            (''Authorization'', ''Bearer '' @ ts ! ((tokenIndex w + n) mod length ts))])"
  by (cases "ts = []")
     (simp_all add: nth_call_def after_calls_empty after_calls_tokenIndex getGitHubHeaders_def Let_def)

text \<open>
  Claim C9. \<open>getGitHubHeaders\<close> is a total function of the pool and the cursor: it reads
  the pool at an index below its length, and nothing in it can fail. With a non-empty
  pool, call number \<open>n\<close> (from 0) after a state \<open>w\<close> returns the \<open>Accept\<close> header and an
  \<open>Authorization\<close> header with the token at index \<open>(tokenIndex w + n) mod\<close> the pool's
  size, which from the initial state is \<open>n mod\<close> the pool's size, and every call
  advances the cursor by exactly one. With an empty pool every call returns the \<open>Accept\<close>
  header alone and leaves the cursor where it was.
\<close>

theorem rotator_round_robin:
  "nth_call githubTokens n w =
     (if githubTokens = [] then [(''Accept'', ''application/vnd.github.v3+json'')]
      else [(''Accept'', ''application/vnd.github.v3+json''),
            (''Authorization'',
             ''Bearer '' @ githubTokens ! ((tokenIndex w + n) mod length githubTokens))])
   \<and> map_of (nth_call githubTokens n initial_world) ''Authorization'' =
       (if githubTokens = [] then None
        else Some (''Bearer '' @ githubTokens ! (n mod length githubTokens)))
   \<and> after_calls githubTokens (Suc n) w =
       (if githubTokens = [] then after_calls githubTokens n w
        else (after_calls githubTokens n w)
               \<lparr>tokenIndex := tokenIndex (after_calls githubTokens n w) + 1\<rparr>)
   \<and> tokenIndex (after_calls githubTokens n w) =
       (if githubTokens = [] then tokenIndex w else tokenIndex w + n)
   \<and> (githubTokens = [] \<or>
        (tokenIndex w + n) mod length githubTokens < length githubTokens)"
proof (cases "githubTokens = []")
  case True
  then show ?thesis
    by (simp add: nth_call_eq after_calls_empty getGitHubHeaders_def)
next
  case False
  then show ?thesis
    by (simp add: nth_call_eq after_calls_tokenIndex initial_world_def getGitHubHeaders_def Let_def)
qed

theorem rotator_round_robin_witness:
  "nth_call [''t0'', ''t1'', ''t2''] 4 initial_world =
     [(''Accept'', ''application/vnd.github.v3+json''), (''Authorization'', ''Bearer t1'')]
   \<and> tokenIndex (after_calls [''t0'', ''t1'', ''t2''] 5 initial_world) = 5
   \<and> nth_call [] 4 initial_world = [(''Accept'', ''application/vnd.github.v3+json'')]
   \<and> after_calls [] 5 initial_world = initial_world"
  using rotator_round_robin [of "[''t0'', ''t1'', ''t2'']" 4 initial_world]
        rotator_round_robin [of "[]" 4 initial_world]
  by (simp add: initial_world_def after_calls_empty after_calls_tokenIndex)

section \<open>Properties of the folder resolver\<close>

subsection \<open>Exact directory match\<close>

lemma endsWith_iff_suffix: "endsWith s t \<longleftrightarrow> suffix t s"
  unfolding endsWith_def suffix_def
  by (metis append_eq_conv_conj append_take_drop_id diff_add_inverse2 le_add2 length_append)

lemma reduce1_shorter_first_min:
  "\<exists>pre post. c # cs = pre @ reduce1 shorter c cs # post
     \<and> (\<forall>x\<in>set pre. length (reduce1 shorter c cs) < length x)
     \<and> (\<forall>x\<in>set post. length (reduce1 shorter c cs) \<le> length x)"
proof (induction cs rule: rev_induct)
  case Nil
  show ?case
    by (rule exI [of _ "[]"], rule exI [of _ "[]"]) (simp add: reduce1_def)
next
  case (snoc x xs)
  let ?m = "reduce1 shorter c xs"
  from snoc obtain pre post where
    eq: "c # xs = pre @ ?m # post"
    and pre: "\<forall>y\<in>set pre. length ?m < length y"
    and post: "\<forall>y\<in>set post. length ?m \<le> length y"
    by blast
  have step: "reduce1 shorter c (xs @ [x]) = shorter ?m x"
    by (simp add: reduce1_def)
  show ?case
  proof (cases "length ?m \<le> length x")
    case True
    then have m: "reduce1 shorter c (xs @ [x]) = ?m"
      by (simp add: step shorter_def)
    have "c # xs @ [x] = pre @ ?m # (post @ [x])"
      using eq by simp
    moreover have "\<forall>y\<in>set (post @ [x]). length ?m \<le> length y"
      using post True by auto
    ultimately show ?thesis
      unfolding m using pre by blast
  next
    case False
    then have m: "reduce1 shorter c (xs @ [x]) = x"
      by (simp add: step shorter_def)
    have "c # xs @ [x] = (pre @ ?m # post) @ x # []"
      using eq by simp
    moreover have "\<forall>y\<in>set (pre @ ?m # post). length x < length y"
      using pre post False by auto
    ultimately show ?thesis
      unfolding m by (metis empty_iff list.set(1))
  qed
qed

text \<open>On a successful response, \<open>findSkillFolder\<close> is the resolution of the fetched tree.\<close>

lemma findSkillFolder_on_tree:
  "tree_api r (GITHUB_API_URL @ ''/repos/'' @ source @ ''/git/trees/HEAD?recursive=1'') = TreeOk tree \<Longrightarrow>
     fst (findSkillFolder r githubTokens source skillId w) = resolveFolder tree skillId
   \<and> fst (findSkillFolder_http r githubTokens source skillId w) = resolveFolder_http tree skillId"
  by (simp add: findSkillFolder_def findSkillFolder_http_def Let_def)

lemma exactCandidates_suffix:
  "exactCandidates tree skillId =
     map tree_path
       (filter (\<lambda>e. tree_type e = ''tree'' \<and>
                  (tree_path e = skillId \<or> suffix (''/'' @ skillId) (tree_path e))) tree)"
  by (simp add: exactCandidates_def endsWith_iff_suffix)

text \<open>
  Claim C2. If the tree has a directory entry whose path is the skill identifier or ends
  with \<open>/\<close> and the skill identifier, then both entry points resolve, with a null error,
  to the candidate \<open>p\<close> that is the first of least length in the order of the tree: every
  candidate before it is strictly longer, every candidate after it at least as long. The
  result is a function of the exact candidates alone: any tree with the same candidates,
  whatever manifests it holds, resolves to the same folder, so no later tier has a say.
\<close>

theorem exact_match_shortest:
  assumes "\<exists>e\<in>set tree. tree_type e = ''tree'' \<and>
             (tree_path e = skillId \<or> suffix (''/'' @ skillId) (tree_path e))"
  shows "\<exists>pre p post.
           map tree_path
             (filter (\<lambda>e. tree_type e = ''tree'' \<and>
                        (tree_path e = skillId \<or> suffix (''/'' @ skillId) (tree_path e))) tree)
             = pre @ p # post
         \<and> (\<forall>q\<in>set pre. length p < length q)
         \<and> (\<forall>q\<in>set post. length p \<le> length q)
         \<and> resolveFolder tree skillId = Returned \<lparr>folderPath = Some p, findError = None\<rparr>
         \<and> resolveFolder_http tree skillId =
               Returned \<lparr>folderPath = Some p, findError = None\<rparr>
         \<and> (\<forall>tree'. exactCandidates tree' skillId = exactCandidates tree skillId \<longrightarrow>
               resolveFolder tree' skillId = resolveFolder tree skillId)"
proof -
  from assms have "exactCandidates tree skillId \<noteq> []"
    by (auto simp: exactCandidates_suffix filter_empty_conv)
  then obtain c cs where cands: "exactCandidates tree skillId = c # cs"
    by (cases "exactCandidates tree skillId") auto
  let ?p = "reduce1 shorter c cs"
  obtain pre post where
    split: "c # cs = pre @ ?p # post"
    and pre: "\<forall>q\<in>set pre. length ?p < length q"
    and post: "\<forall>q\<in>set post. length ?p \<le> length q"
    using reduce1_shorter_first_min [of c cs] by blast
  have r: "resolveFolder tree skillId = Returned \<lparr>folderPath = Some ?p, findError = None\<rparr>"
    by (simp add: resolveFolder_def cands)
  have h: "resolveFolder_http tree skillId =
             Returned \<lparr>folderPath = Some ?p, findError = None\<rparr>"
    by (simp add: resolveFolder_http_def cands)
  have indep: "\<forall>tree'. exactCandidates tree' skillId = exactCandidates tree skillId \<longrightarrow>
                 resolveFolder tree' skillId = resolveFolder tree skillId"
    by (simp add: resolveFolder_def cands)
  have "map tree_path
          (filter (\<lambda>e. tree_type e = ''tree'' \<and>
                     (tree_path e = skillId \<or> suffix (''/'' @ skillId) (tree_path e))) tree)
        = pre @ ?p # post"
    using cands split by (simp add: exactCandidates_suffix)
  with pre post r h indep show ?thesis by blast
qed

theorem exact_match_shortest_witness:
  "(\<exists>e\<in>set example_tree. tree_type e = ''tree'' \<and>
      (tree_path e = ''pdf'' \<or> suffix (''/'' @ ''pdf'') (tree_path e)))
   \<and> resolveFolder example_tree ''pdf'' =
         Returned \<lparr>folderPath = Some ''skills/pdf'', findError = None\<rparr>
   \<and> resolveFolder_http example_tree ''pdf'' =
         Returned \<lparr>folderPath = Some ''skills/pdf'', findError = None\<rparr>"
proof -
  have h: "\<exists>e\<in>set example_tree. tree_type e = ''tree'' \<and>
             (tree_path e = ''pdf'' \<or> suffix (''/'' @ ''pdf'') (tree_path e))"
    by (simp add: example_tree_def suffix_def)
  have c: "exactCandidates example_tree ''pdf'' = [''skills/deep/pdf'', ''skills/pdf'', ''vendor/pdf'']"
    by (simp add: example_tree_def exactCandidates_def endsWith_def)
  from exact_match_shortest [OF h] obtain pre p post where
    "exactCandidates example_tree ''pdf'' = pre @ p # post"
    and r: "resolveFolder example_tree ''pdf'' = Returned \<lparr>folderPath = Some p, findError = None\<rparr>"
    and r': "resolveFolder_http example_tree ''pdf'' = Returned \<lparr>folderPath = Some p, findError = None\<rparr>"
    unfolding exactCandidates_suffix by blast
  have "resolveFolder example_tree ''pdf'' =
          Returned \<lparr>folderPath = Some ''skills/pdf'', findError = None\<rparr>"
    by (simp add: resolveFolder_def c reduce1_def shorter_def)
  with r have "p = ''skills/pdf''" by simp
  with h r r' show ?thesis by simp
qed

subsection \<open>Skill manifests\<close>

lemma canonicalize_pattern:
  "canonicalize c = CHR ''S'' \<longleftrightarrow> c = CHR ''S'' \<or> c = CHR ''s''"
  "canonicalize c = CHR ''K'' \<longleftrightarrow> c = CHR ''K'' \<or> c = CHR ''k''"
  "canonicalize c = CHR ''I'' \<longleftrightarrow> c = CHR ''I'' \<or> c = CHR ''i''"
  "canonicalize c = CHR ''L'' \<longleftrightarrow> c = CHR ''L'' \<or> c = CHR ''l''"
  "canonicalize c = CHR ''.'' \<longleftrightarrow> c = CHR ''.''"
  "canonicalize c = CHR ''M'' \<longleftrightarrow> c = CHR ''M'' \<or> c = CHR ''m''"
  "canonicalize c = CHR ''D'' \<longleftrightarrow> c = CHR ''D'' \<or> c = CHR ''d''"
  by (simp_all add: canonicalize_def)

lemma lower_case_pattern:
  "lower_case c = CHR ''s'' \<longleftrightarrow> c = CHR ''S'' \<or> c = CHR ''s''"
  "lower_case c = CHR ''k'' \<longleftrightarrow> c = CHR ''K'' \<or> c = CHR ''k''"
  "lower_case c = CHR ''i'' \<longleftrightarrow> c = CHR ''I'' \<or> c = CHR ''i''"
  "lower_case c = CHR ''l'' \<longleftrightarrow> c = CHR ''L'' \<or> c = CHR ''l''"
  "lower_case c = CHR ''.'' \<longleftrightarrow> c = CHR ''.''"
  "lower_case c = CHR ''m'' \<longleftrightarrow> c = CHR ''M'' \<or> c = CHR ''m''"
  "lower_case c = CHR ''d'' \<longleftrightarrow> c = CHR ''D'' \<or> c = CHR ''d''"
  by (simp_all add: lower_case_def)

lemma map_eq_8:
  "map f xs = [a, b, c, d, e, g, h, i] \<longleftrightarrow>
     (\<exists>x1 x2 x3 x4 x5 x6 x7 x8. xs = [x1, x2, x3, x4, x5, x6, x7, x8] \<and>
        f x1 = a \<and> f x2 = b \<and> f x3 = c \<and> f x4 = d \<and> f x5 = e \<and> f x6 = g \<and> f x7 = h \<and> f x8 = i)"
  by (auto simp: map_eq_Cons_conv)

lemma canonical_suffix:
  "map canonicalize suf = map canonicalize ''SKILL.md'' \<longleftrightarrow> map lower_case suf = ''skill.md''"
proof -
  have c: "map canonicalize ''SKILL.md'' = ''SKILL.MD''"
    by (simp add: canonicalize_def)
  show ?thesis
    unfolding c map_eq_8 canonicalize_pattern lower_case_pattern ..
qed

lemma suffix_map_iff:
  "suffix t (map f p) \<longleftrightarrow> (\<exists>pre suf. p = pre @ suf \<and> map f suf = t)"
  unfolding suffix_def by (auto simp: map_eq_append_conv)

lemma test_SKILL_md_iff:
  "test_SKILL_md p \<longleftrightarrow> (\<exists>pre suf. p = pre @ suf \<and> map lower_case suf = ''skill.md'')"
  by (simp only: test_SKILL_md_def endsWith_iff_suffix suffix_map_iff canonical_suffix)

text \<open>
  Claim C10. A tree entry counts as a skill manifest iff it is a blob whose path ends
  with \<open>skill.md\<close>, compared case-insensitively. So \<open>docs/my-skill.md\<close> is a manifest
  (and \<open>docs/SKILL.md.bak\<close> is not), and in a repository that has no file named
  \<open>SKILL.md\<close> at all its parent directory \<open>docs\<close> is what resolution returns.
\<close>

theorem manifest_is_suffix_match:
  "(isSkillMd e \<longleftrightarrow>
      tree_type e = ''blob'' \<and>
      (\<exists>pre suf. tree_path e = pre @ suf \<and> map lower_case suf = ''skill.md''))
   \<and> isSkillMd \<lparr>tree_path = ''docs/my-skill.md'', tree_type = ''blob''\<rparr>
   \<and> \<not> isSkillMd \<lparr>tree_path = ''docs/SKILL.md.bak'', tree_type = ''blob''\<rparr>
   \<and> resolveFolder
         [\<lparr>tree_path = ''docs'', tree_type = ''tree''\<rparr>,
          \<lparr>tree_path = ''docs/my-skill.md'', tree_type = ''blob''\<rparr>] ''pdf''
       = Returned \<lparr>folderPath = Some ''docs'', findError = None\<rparr>"
proof -
  have a: "isSkillMd \<lparr>tree_path = ''docs/my-skill.md'', tree_type = ''blob''\<rparr>"
    by (simp add: isSkillMd_def test_SKILL_md_def endsWith_def canonicalize_def)
  have b: "\<not> isSkillMd \<lparr>tree_path = ''docs/SKILL.md.bak'', tree_type = ''blob''\<rparr>"
    by (simp add: isSkillMd_def test_SKILL_md_def endsWith_def canonicalize_def)
  have c: "\<not> isSkillMd \<lparr>tree_path = ''docs'', tree_type = ''tree''\<rparr>"
    by (simp add: isSkillMd_def)
  have d: "exactCandidates
         [\<lparr>tree_path = ''docs'', tree_type = ''tree''\<rparr>,
          \<lparr>tree_path = ''docs/my-skill.md'', tree_type = ''blob''\<rparr>] ''pdf'' = []"
    by (simp add: exactCandidates_def endsWith_def)
  have e: "parentFolder ''docs/my-skill.md'' = ''docs''"
    by (simp add: parentFolder_def)
  have "resolveFolder
         [\<lparr>tree_path = ''docs'', tree_type = ''tree''\<rparr>,
          \<lparr>tree_path = ''docs/my-skill.md'', tree_type = ''blob''\<rparr>] ''pdf''
       = Returned \<lparr>folderPath = Some ''docs'', findError = None\<rparr>"
    by (simp add: resolveFolder_def d a c e)
  with a b show ?thesis
    by (simp only: isSkillMd_def test_SKILL_md_iff simp_thms)
qed

subsection \<open>Single-manifest shortcut\<close>

lemma lastIndexOf_None: "lastIndexOf c s = None \<longleftrightarrow> c \<notin> set s"
  by (induction s) (auto split: option.splits)

lemma lastIndexOf_append:
  "c \<notin> set f \<Longrightarrow> lastIndexOf c (d @ c # f) = Some (length d)"
  by (induction d) (auto simp: lastIndexOf_None split: option.splits)

lemma parentFolder_root: "CHR ''/'' \<notin> set p \<Longrightarrow> parentFolder p = []"
  using lastIndexOf_None [of "CHR ''/''" p] by (simp add: parentFolder_def)

lemma parentFolder_nested: "CHR ''/'' \<notin> set f \<Longrightarrow> parentFolder (d @ ''/'' @ f) = d"
  by (simp add: parentFolder_def lastIndexOf_append)

text \<open>
  Claim C4, as amended. If no directory of the tree matches the skill identifier
  exactly, and the manifest scan finds exactly one manifest blob, then resolution returns
  that blob's parent directory with a null error, whatever the skill identifier is: the
  empty string when the path has no \<open>/\<close>, and otherwise everything before the last
  \<open>/\<close>. The shortcut tests the number of manifest blobs, not the number of distinct
  parent directories.
\<close>

theorem single_manifest_shortcut:
  assumes "\<not> (\<exists>d\<in>set tree. tree_type d = ''tree'' \<and>
                (tree_path d = skillId \<or> suffix (''/'' @ skillId) (tree_path d)))"
    and "filter isSkillMd tree = [e]"
  shows "resolveFolder tree skillId =
           Returned \<lparr>folderPath = Some (parentFolder (tree_path e)), findError = None\<rparr>
         \<and> (CHR ''/'' \<notin> set (tree_path e) \<longrightarrow> parentFolder (tree_path e) = [])
         \<and> (\<forall>d f. tree_path e = d @ ''/'' @ f \<and> CHR ''/'' \<notin> set f \<longrightarrow>
               parentFolder (tree_path e) = d)"
proof -
  from assms(1) have "exactCandidates tree skillId = []"
    by (auto simp: exactCandidates_suffix filter_empty_conv)
  then have "resolveFolder tree skillId =
           Returned \<lparr>folderPath = Some (parentFolder (tree_path e)), findError = None\<rparr>"
    by (simp add: resolveFolder_def assms(2))
  moreover have "CHR ''/'' \<notin> set (tree_path e) \<longrightarrow> parentFolder (tree_path e) = []"
    by (simp add: parentFolder_root)
  moreover have "\<forall>d f. tree_path e = d @ ''/'' @ f \<and> CHR ''/'' \<notin> set f \<longrightarrow>
               parentFolder (tree_path e) = d"
    using parentFolder_nested by auto
  ultimately show ?thesis by (intro conjI)
qed

theorem single_manifest_shortcut_witness:
  "\<not> (\<exists>d\<in>set lone_manifest_tree. tree_type d = ''tree'' \<and>
         (tree_path d = ''zzz'' \<or> suffix (''/'' @ ''zzz'') (tree_path d)))
   \<and> filter isSkillMd lone_manifest_tree =
         [\<lparr>tree_path = ''tools/code-review/SKILL.md'', tree_type = ''blob''\<rparr>]
   \<and> resolveFolder lone_manifest_tree ''zzz'' =
         Returned \<lparr>folderPath = Some ''tools/code-review'', findError = None\<rparr>"
proof -
  have "exactCandidates lone_manifest_tree ''zzz'' = []"
    by code_simp
  then have h1: "\<not> (\<exists>d\<in>set lone_manifest_tree. tree_type d = ''tree'' \<and>
         (tree_path d = ''zzz'' \<or> suffix (''/'' @ ''zzz'') (tree_path d)))"
    by (simp add: exactCandidates_suffix filter_empty_conv)
  have h2: "filter isSkillMd lone_manifest_tree =
         [\<lparr>tree_path = ''tools/code-review/SKILL.md'', tree_type = ''blob''\<rparr>]"
    by code_simp
  have p: "parentFolder ''tools/code-review/SKILL.md'' = ''tools/code-review''"
    by code_simp
  from single_manifest_shortcut [OF h1 h2] h1 h2 p show ?thesis
    by simp
qed

text \<open>
  Two manifests in one directory, \<open>foo/SKILL.md\<close> and \<open>foo/skill.md\<close>: their parent
  directories are the single directory \<open>foo\<close>, but the list of parents has two elements,
  so the fuzzy tier runs, and for the identifier \<open>bar\<close> it refuses \<open>foo\<close>.
\<close>

theorem two_manifests_one_folder_counterexample:
  "resolveFolder
     [\<lparr>tree_path = ''foo'', tree_type = ''tree''\<rparr>,
      \<lparr>tree_path = ''foo/SKILL.md'', tree_type = ''blob''\<rparr>,
      \<lparr>tree_path = ''foo/skill.md'', tree_type = ''blob''\<rparr>] ''bar''
   = Returned \<lparr>folderPath = None,
       findError = Some ''No matching skill folder found (best match: foo at 0%)''\<rparr>"
  by code_simp

subsection \<open>Double arithmetic\<close>

text \<open>
  \<open>to_double\<close> keeps 53 significant bits: the significand of a positive number lies
  between \<open>2^52\<close> and \<open>2^53\<close>. Hence rounding never changes a sign, and it moves a
  number by at most \<open>2^-53\<close> of its size.
\<close>

lemma round_even_bounds: "of_int (round_even y) - 1 / 2 \<le> y \<and> y \<le> of_int (round_even y) + 1 / 2"
  unfolding round_even_def Let_def
  by (auto; linarith)

lemma round_even_ge_floor: "\<lfloor>y\<rfloor> \<le> round_even y"
  by (simp add: round_even_def Let_def)

lemma pow2_bitlen:
  assumes "0 < p"
  shows "(2::rat) powi (bitlen p - 1) \<le> of_int p" "of_int p < (2::rat) powi bitlen p"
proof -
  from assms have b: "1 \<le> bitlen p"
    by (auto simp: bitlen_alt_def)
  from bitlen_bounds [OF assms] have "2 ^ nat (bitlen p - 1) \<le> p" "p < 2 ^ nat (bitlen p)"
    by simp_all
  then have "(of_int (2 ^ nat (bitlen p - 1)) :: rat) \<le> of_int p"
    "(of_int p :: rat) < of_int (2 ^ nat (bitlen p))"
    by (simp_all only: of_int_le_iff of_int_less_iff)
  with b show "(2::rat) powi (bitlen p - 1) \<le> of_int p" "of_int p < (2::rat) powi bitlen p"
    by (simp_all add: power_int_def)
qed

lemma exponent_bounds:
  assumes "0 < x"
  shows "2 powi exponent x \<le> x" "x < 2 powi (exponent x + 1)"
proof -
  obtain p q where pq: "quotient_of x = (p, q)"
    by (cases "quotient_of x")
  then have q: "0 < q" and x: "x = of_int p / of_int q"
    using quotient_of_denom_pos quotient_of_div by auto
  with assms have p: "0 < p"
    by (simp add: zero_less_divide_iff)
  let ?d = "bitlen p - bitlen q"
  have lo: "(2::rat) powi (?d - 1) < x"
  proof -
    have "(2::rat) powi (?d - 1) = 2 powi (bitlen p - 1) / 2 powi bitlen q"
      by (simp add: power_int_diff)
    also have "\<dots> \<le> of_int p / 2 powi bitlen q"
      using pow2_bitlen(1) [OF p] by (simp add: divide_right_mono)
    also have "\<dots> < of_int p / of_int q"
      using pow2_bitlen(2) [OF q] p q by (simp add: divide_strict_left_mono)
    finally show ?thesis by (simp add: x)
  qed
  have hi: "x < (2::rat) powi (?d + 1)"
  proof -
    have "x = of_int p / of_int q" by (rule x)
    also have "\<dots> < 2 powi bitlen p / of_int q"
      using pow2_bitlen(2) [OF p] q by (simp add: divide_strict_right_mono)
    also have "\<dots> \<le> 2 powi bitlen p / 2 powi (bitlen q - 1)"
      using pow2_bitlen(1) [OF q] q by (simp add: divide_left_mono)
    also have "\<dots> = (2::rat) powi (?d + 1)"
      by (simp add: power_int_diff power_int_add)
    finally show ?thesis .
  qed
  show "2 powi exponent x \<le> x"
    using lo by (auto simp: exponent_def pq Let_def)
  show "x < 2 powi (exponent x + 1)"
    using hi by (auto simp: exponent_def pq Let_def not_le)
qed

lemma significand_bounds:
  assumes "0 < x"
  shows "2 ^ 52 \<le> x / 2 powi (exponent x - 52)" "x / 2 powi (exponent x - 52) < 2 ^ 53"
proof -
  have u: "(0::rat) < 2 powi (exponent x - 52)"
    by simp
  have "(2::rat) ^ 52 * 2 powi (exponent x - 52) = 2 powi exponent x"
    by (simp add: power_int_diff)
  with exponent_bounds(1) [OF assms] show "2 ^ 52 \<le> x / 2 powi (exponent x - 52)"
    using u by (simp add: pos_le_divide_eq)
  have "(2::rat) ^ 53 * 2 powi (exponent x - 52) = 2 powi (exponent x + 1)"
    by (simp add: power_int_diff power_int_add)
  with exponent_bounds(2) [OF assms] show "x / 2 powi (exponent x - 52) < 2 ^ 53"
    using u by (simp add: pos_divide_less_eq)
qed

lemma to_double_pos: "0 < x \<Longrightarrow> 0 < to_double x"
proof -
  assume x: "0 < x"
  have "(1::rat) \<le> 2 ^ 52" by simp
  with significand_bounds(1) [OF x] have "1 \<le> x / 2 powi (exponent x - 52)"
    by linarith
  then have "1 \<le> \<lfloor>x / 2 powi (exponent x - 52)\<rfloor>"
    by (simp add: le_floor_iff)
  with round_even_ge_floor [of "x / 2 powi (exponent x - 52)"]
  have "0 < round_even (x / 2 powi (exponent x - 52))"
    by linarith
  with x show ?thesis
    by (simp add: to_double_def Let_def)
qed

lemma to_double_minus: "to_double (- x) = - to_double x"
  by (simp add: to_double_def Let_def)

lemma to_double_neg_iff: "to_double z < 0 \<longleftrightarrow> z < 0"
proof (cases z "0::rat" rule: linorder_cases)
  case less
  then have "0 < to_double (- z)" by (simp add: to_double_pos)
  with less show ?thesis by (simp add: to_double_minus)
next
  case equal
  then show ?thesis by (simp add: to_double_def)
next
  case greater
  with to_double_pos [of z] show ?thesis by simp
qed

lemma to_double_error: "\<bar>to_double x - x\<bar> \<le> \<bar>x\<bar> / 2 ^ 53"
proof (cases "x = 0")
  case True
  then show ?thesis by (simp add: to_double_def)
next
  case False
  let ?a = "\<bar>x\<bar>"
  let ?u = "(2::rat) powi (exponent ?a - 52)"
  let ?m = "round_even (?a / ?u)"
  from False have a: "0 < ?a" by simp
  have u: "0 < ?u" by simp
  have "\<bar>of_int ?m - ?a / ?u\<bar> \<le> 1 / 2"
    using round_even_bounds [of "?a / ?u"] by linarith
  then have "\<bar>of_int ?m - ?a / ?u\<bar> * ?u \<le> 1 / 2 * ?u"
    using u by (simp add: mult_right_mono)
  moreover have "(of_int ?m - ?a / ?u) * ?u = of_int ?m * ?u - ?a"
    using u by (simp add: left_diff_distrib)
  then have "\<bar>of_int ?m - ?a / ?u\<bar> * ?u = \<bar>of_int ?m * ?u - ?a\<bar>"
    using u by (metis abs_mult abs_of_pos)
  ultimately have e1: "\<bar>of_int ?m * ?u - ?a\<bar> \<le> ?u / 2"
    by simp
  have "?u * 2 ^ 52 \<le> ?a"
    using significand_bounds(1) [OF a] u by (simp add: pos_le_divide_eq mult.commute)
  then have e2: "?u / 2 \<le> ?a / 2 ^ 53"
    by simp
  have "to_double x - x = sgn x * (of_int ?m * ?u - ?a)"
    using False by (simp add: to_double_def Let_def algebra_simps abs_mult_sgn)
  then have "\<bar>to_double x - x\<bar> = \<bar>of_int ?m * ?u - ?a\<bar>"
    using False by (simp add: abs_mult abs_sgn_eq)
  with e1 e2 show ?thesis by linarith
qed

lemma to_double_values:
  "to_double 0 = 0" "to_double 1 = 1" "to_double (1 / 2) = 1 / 2" "to_double (3 / 10) \<le> 1"
  by code_simp+

subsection \<open>Fuzzy disambiguation\<close>

text \<open>\<open>folderNameOf\<close> is the last segment of a path.\<close>

lemma split_not_Nil: "split c s \<noteq> []"
  by (induction s) (auto split: list.splits)

lemma split_no_separator: "c \<notin> set s \<Longrightarrow> split c s = [s]"
  by (induction s) auto

lemma split_append_separator: "split c (xs @ c # ys) = split c xs @ split c ys"
proof (induction xs)
  case Nil
  show ?case by simp
next
  case (Cons x xs)
  obtain p ps where "split c xs = p # ps"
    using split_not_Nil [of c xs] by (cases "split c xs") auto
  with Cons show ?case by simp
qed

lemma folderNameOf_plain: "CHR ''/'' \<notin> set f \<Longrightarrow> folderNameOf f = f"
  by (simp add: folderNameOf_def split_no_separator)

lemma folderNameOf_nested: "CHR ''/'' \<notin> set f \<Longrightarrow> folderNameOf (d @ ''/'' @ f) = f"
  by (simp add: folderNameOf_def split_append_separator split_no_separator)

lemma score_weather_widgets:
  "folderNameOf p = ''weather-widgets'' \<Longrightarrow>
     score_candidate ''weather'' p =
       \<lparr>cand_folderPath = p, cand_folderName = ''weather-widgets'', cand_score = Some 1\<rparr>"
proof -
  assume n: "folderNameOf p = ''weather-widgets''"
  have t: "tokens ''weather-widgets'' = [''weather'', ''widgets'']" by code_simp
  have s: "tokens ''weather'' = [''weather'']" by code_simp
  have i: "includes_str ''weather-widgets'' ''weather''" by code_simp
  show ?thesis
    by (simp add: score_candidate_def n t s i Let_def new_Set_def divide_sizes_def
          to_double_values)
qed

lemma score_weather:
  "folderNameOf q = ''weather'' \<Longrightarrow>
     score_candidate ''weather'' q =
       \<lparr>cand_folderPath = q, cand_folderName = ''weather'', cand_score = Some 1\<rparr>"
proof -
  assume n: "folderNameOf q = ''weather''"
  have s: "tokens ''weather'' = [''weather'']" by code_simp
  have i: "includes_str ''weather'' ''weather''" by code_simp
  have o: "to_double (3 / 2) = 3 / 2" by code_simp
  show ?thesis
    by (simp add: score_candidate_def n s i Let_def new_Set_def divide_sizes_def
          to_double_values o)
qed

text \<open>
  Claim C5, as amended. Against the skill identifier \<open>weather\<close>, a candidate whose
  last segment is \<open>weather-widgets\<close> scores \<open>1/2 + 0.5 = 1\<close> and one whose last segment
  is \<open>weather\<close> scores \<open>1 + 0.5\<close> capped to \<open>1\<close>: a tie, which the stable sort leaves
  in the order of the tree. So the fuzzy tier returns whichever of the two comes first.
\<close>

theorem weather_tie_first_wins:
  assumes "folderNameOf p = ''weather-widgets''" and "folderNameOf q = ''weather''"
  shows "cand_score (score_candidate ''weather'' p) = Some 1
       \<and> cand_score (score_candidate ''weather'' q) = Some 1
       \<and> fuzzyMatch [p, q] ''weather'' = Returned \<lparr>folderPath = Some p, findError = None\<rparr>
       \<and> fuzzyMatch [q, p] ''weather'' = Returned \<lparr>folderPath = Some q, findError = None\<rparr>"
  by (simp add: score_weather_widgets [OF assms(1)] score_weather [OF assms(2)]
        fuzzyMatch_def sort_candidates_def sorts_before_def at_least_030_def to_double_values)

theorem weather_tie_first_wins_witness:
  "folderNameOf ''a/weather-widgets'' = ''weather-widgets''
   \<and> folderNameOf ''b/weather'' = ''weather''
   \<and> cand_score (score_candidate ''weather'' ''a/weather-widgets'') = Some 1
   \<and> cand_score (score_candidate ''weather'' ''b/weather'') = Some 1
   \<and> fuzzyMatch [''a/weather-widgets'', ''b/weather''] ''weather'' =
       Returned \<lparr>folderPath = Some ''a/weather-widgets'', findError = None\<rparr>
   \<and> fuzzyMatch [''b/weather'', ''a/weather-widgets''] ''weather'' =
       Returned \<lparr>folderPath = Some ''b/weather'', findError = None\<rparr>"
proof -
  have h1: "folderNameOf ''a/weather-widgets'' = ''weather-widgets''" by code_simp
  have h2: "folderNameOf ''b/weather'' = ''weather''" by code_simp
  from weather_tie_first_wins [OF h1 h2] h1 h2 show ?thesis by simp
qed

text \<open>
  With the manifest of \<open>weather-widgets\<close> listed before that of \<open>weather\<close>, and no
  directory entry to match exactly, resolution of \<open>weather\<close> returns \<open>weather-widgets\<close>.
\<close>

theorem weather_widgets_first_counterexample:
  "resolveFolder
     [\<lparr>tree_path = ''a/weather-widgets/SKILL.md'', tree_type = ''blob''\<rparr>,
      \<lparr>tree_path = ''b/weather/SKILL.md'', tree_type = ''blob''\<rparr>] ''weather''
   = Returned \<lparr>folderPath = Some ''a/weather-widgets'', findError = None\<rparr>"
  by code_simp

lemma foldl_add_set:
  "set (foldl (\<lambda>s x. if x \<in> set s then s else s @ [x]) acc xs) = set acc \<union> set xs"
  by (induction xs arbitrary: acc) auto

lemma foldl_add_distinct:
  "distinct acc \<Longrightarrow> distinct (foldl (\<lambda>s x. if x \<in> set s then s else s @ [x]) acc xs)"
  by (induction xs arbitrary: acc) auto

lemma set_new_Set: "set (new_Set xs) = set xs"
  by (simp add: new_Set_def foldl_add_set)

lemma distinct_new_Set: "distinct (new_Set xs)"
  by (simp add: new_Set_def foldl_add_distinct)

lemma length_new_Set: "length (new_Set xs) = card (set xs)"
  using distinct_card [OF distinct_new_Set, of xs] by (simp add: set_new_Set)

lemma set_tokens: "set (tokens s) = token_set s"
  by (auto simp: tokens_def token_set_def set_new_Set)

lemma length_tokens: "length (tokens s) = card (token_set s)"
  using length_new_Set [of "filter (\<lambda>t. t \<noteq> []) (split CHR ''-'' s)"]
  by (simp add: tokens_def set_tokens [symmetric] set_new_Set)

lemma length_common:
  "length (new_Set (filter (\<lambda>t. t \<in> set (tokens s)) (tokens f))) =
     card (token_set f \<inter> token_set s)"
proof -
  have "set (filter (\<lambda>t. t \<in> set (tokens s)) (tokens f)) = token_set f \<inter> token_set s"
    by (auto simp: set_tokens)
  then show ?thesis by (simp add: length_new_Set)
qed

lemma startsWith_prefix: "startsWith s t \<longleftrightarrow> prefix t s"
  by (induction s t rule: startsWith.induct) auto

lemma includes_str_sublist: "includes_str s t \<longleftrightarrow> sublist t s"
  by (induction s) (auto simp: startsWith_prefix sublist_Cons_right)

lemma score_candidate_spec:
  assumes "token_set (folderNameOf p) \<noteq> {} \<or> token_set skillId \<noteq> {}"
  shows "score_candidate skillId p =
           \<lparr>cand_folderPath = p, cand_folderName = folderNameOf p,
            cand_score = Some (double_score (folderNameOf p) skillId)\<rparr>"
proof -
  have "finite (token_set skillId)" "finite (token_set (folderNameOf p))"
    by (simp_all add: token_set_def)
  with assms have "0 < card (token_set (folderNameOf p)) \<or> 0 < card (token_set skillId)"
    by (simp add: card_gt_0_iff)
  then have "max (card (token_set (folderNameOf p))) (card (token_set skillId)) \<noteq> 0"
    by auto
  then have d: "divide_sizes (card (token_set (folderNameOf p) \<inter> token_set skillId))
                  (max (card (token_set (folderNameOf p))) (card (token_set skillId))) =
                Some (to_double
                  (of_nat (card (token_set (folderNameOf p) \<inter> token_set skillId)) /
                   of_nat (max (card (token_set (folderNameOf p))) (card (token_set skillId)))))"
    by (simp only: divide_sizes_def if_False)
  show ?thesis
    unfolding score_candidate_def Let_def length_tokens length_common d includes_str_sublist
      double_score_def
    by simp
qed

text \<open>The double score is the exact score up to the two roundings.\<close>

lemma to_double_error_le:
  assumes "0 \<le> x" and "x \<le> c"
  shows "\<bar>to_double x - x\<bar> \<le> c / 2 ^ 53"
proof -
  have "\<bar>to_double x - x\<bar> \<le> \<bar>x\<bar> / 2 ^ 53"
    by (rule to_double_error)
  also have "\<dots> \<le> c / 2 ^ 53"
    using assms by (simp add: divide_right_mono)
  finally show ?thesis .
qed

lemma double_score_close:
  assumes "token_set folderName \<noteq> {} \<or> token_set skillId \<noteq> {}"
  shows "\<bar>double_score folderName skillId - exact_score folderName skillId\<bar> \<le> 1 / 2 ^ 51"
proof -
  define n where "n = card (token_set folderName \<inter> token_set skillId)"
  define d where "d = max (card (token_set folderName)) (card (token_set skillId))"
  define q :: rat where "q = of_nat n / of_nat d"
  define b where "b = to_double q"
  have fin: "finite (token_set folderName)" "finite (token_set skillId)"
    by (simp_all add: token_set_def)
  with assms have "0 < card (token_set folderName) \<or> 0 < card (token_set skillId)"
    by (simp add: card_gt_0_iff)
  then have d: "0 < d"
    by (auto simp: d_def)
  have "n \<le> card (token_set folderName)"
    unfolding n_def using fin by (simp add: card_mono)
  then have "n \<le> d"
    by (simp add: d_def)
  then have q: "0 \<le> q" "q \<le> 1"
    using d by (simp_all add: q_def divide_le_eq)
  have e1: "\<bar>b - q\<bar> \<le> 1 / 2 ^ 53"
    unfolding b_def by (rule to_double_error_le [OF q])
  have "(1::rat) / 2 ^ 53 \<le> 1 / 4"
    by simp
  with e1 have "\<bar>b - q\<bar> \<le> 1 / 4"
    by (rule order_trans)
  with q have "0 \<le> b + 1 / 2" "b + 1 / 2 \<le> 2"
    by linarith+
  then have e2: "\<bar>to_double (b + 1 / 2) - (b + 1 / 2)\<bar> \<le> 2 / 2 ^ 53"
    by (rule to_double_error_le)
  have "\<bar>min (to_double (b + 1 / 2)) 1 - min (q + 1 / 2) 1\<bar>
          \<le> \<bar>to_double (b + 1 / 2) - (q + 1 / 2)\<bar>"
    by linarith
  also have "\<dots> \<le> 3 / 2 ^ 53"
    using e1 e2 by linarith
  finally have e3: "\<bar>min (to_double (b + 1 / 2)) 1 - min (q + 1 / 2) 1\<bar> \<le> 1 / 2 ^ 51"
    by simp
  from e1 have e4: "\<bar>b - q\<bar> \<le> 1 / 2 ^ 51"
    by simp
  have ds: "double_score folderName skillId =
      (if sublist folderName skillId \<or> sublist skillId folderName
       then min (to_double (b + 1 / 2)) 1 else b)"
    by (simp add: double_score_def Let_def b_def q_def n_def d_def)
  have es: "exact_score folderName skillId =
      (if sublist folderName skillId \<or> sublist skillId folderName
       then min (q + 1 / 2) 1 else q)"
    by (simp add: exact_score_def Let_def q_def n_def d_def)
  show ?thesis
    unfolding ds es using e3 e4 by (simp split: if_splits)
qed

lemma best_of_sorted:
  assumes "fs \<noteq> []"
    and "\<forall>p\<in>set fs. token_set (folderNameOf p) \<noteq> {} \<or> token_set skillId \<noteq> {}"
  shows "\<exists>pre best post rest.
           fs = pre @ best # post
         \<and> sort_candidates (map (score_candidate skillId) fs) = score_candidate skillId best # rest
         \<and> (\<forall>p\<in>set pre. double_score (folderNameOf p) skillId < double_score (folderNameOf best) skillId)
         \<and> (\<forall>p\<in>set post. double_score (folderNameOf p) skillId \<le> double_score (folderNameOf best) skillId)"
  using assms
proof (induction fs rule: list_nonempty_induct)
  case (single x)
  show ?case
    by (rule exI [of _ "[]"], rule exI [of _ x], rule exI [of _ "[]"], rule exI [of _ "[]"])
       (simp add: sort_candidates_def)
next
  case (cons x xs)
  let ?S = "\<lambda>p. double_score (folderNameOf p) skillId"
  from cons.prems have ok: "\<forall>p\<in>set xs. token_set (folderNameOf p) \<noteq> {} \<or> token_set skillId \<noteq> {}"
    and okx: "token_set (folderNameOf x) \<noteq> {} \<or> token_set skillId \<noteq> {}"
    by simp_all
  from cons.IH [OF ok] obtain pre b post rest where
    xs: "xs = pre @ b # post"
    and sorted: "sort_candidates (map (score_candidate skillId) xs) = score_candidate skillId b # rest"
    and pre: "\<forall>p\<in>set pre. ?S p < ?S b"
    and post: "\<forall>p\<in>set post. ?S p \<le> ?S b"
    by blast
  from ok xs have okb: "token_set (folderNameOf b) \<noteq> {} \<or> token_set skillId \<noteq> {}"
    by simp
  have step: "sort_candidates (map (score_candidate skillId) (x # xs)) =
                insert_sorted (score_candidate skillId x) (score_candidate skillId b # rest)"
    using sorted by (simp add: sort_candidates_def)
  have before: "sorts_before (score_candidate skillId b) (score_candidate skillId x) \<longleftrightarrow> ?S x < ?S b"
    by (simp add: sorts_before_def score_candidate_spec [OF okb] score_candidate_spec [OF okx]
          to_double_neg_iff)
  show ?case
  proof (cases "?S x < ?S b")
    case True
    have "x # xs = (x # pre) @ b # post"
      by (simp add: xs)
    moreover have "sort_candidates (map (score_candidate skillId) (x # xs)) =
        score_candidate skillId b # insert_sorted (score_candidate skillId x) rest"
      using True before unfolding step by simp
    moreover have "\<forall>p\<in>set (x # pre). ?S p < ?S b"
      using True pre by simp
    ultimately show ?thesis
      using post by blast
  next
    case False
    have "x # xs = [] @ x # xs"
      by simp
    moreover have "sort_candidates (map (score_candidate skillId) (x # xs)) =
        score_candidate skillId x # score_candidate skillId b # rest"
      using False before unfolding step by simp
    moreover have "\<forall>p\<in>set xs. ?S p \<le> ?S x"
      using False pre post by (auto simp: xs)
    ultimately show ?thesis
      by (metis empty_iff list.set(1))
  qed
qed

lemma percent_round: "percent (Some x) = decimal (nat (round (to_double (x * 100))))"
  by (simp add: percent_def round_def)

text \<open>
  Claim C3, as amended. Let the tree have no exact directory match and two or more
  manifest blobs, and let no candidate (the parent directory of a manifest) score
  \<open>0 / 0\<close>: its last path segment or the skill identifier has a non-empty
  \<open>-\<close>-separated token. Each candidate scores \<open>double_score\<close> of its last path
  segment: over the sets of non-empty tokens, the size of the intersection divided by
  the larger size, plus \<open>0.5\<close> capped at \<open>1\<close> when one string occurs in the other,
  computed in double arithmetic, which is within \<open>2^-51\<close> of the exact value.
  Resolution picks the first candidate of greatest score (\<open>best\<close>: every candidate
  before it scores strictly less, every one after it at most as much); it returns the
  path of \<open>best\<close> with a null error if that score is at least the double \<open>0.30\<close>, and
  otherwise a null path and the message that names the last segment of \<open>best\<close> and its
  score times 100, a double, rounded to the nearest integer.
\<close>

theorem fuzzy_tier_selection:
  assumes "\<not> (\<exists>d\<in>set tree. tree_type d = ''tree'' \<and>
                (tree_path d = skillId \<or> suffix (''/'' @ skillId) (tree_path d)))"
    and "2 \<le> length (filter isSkillMd tree)"
    and "\<forall>e\<in>set (filter isSkillMd tree).
           token_set (folderNameOf (parentFolder (tree_path e))) \<noteq> {} \<or> token_set skillId \<noteq> {}"
  shows "\<exists>pre best post.
           map (\<lambda>e. parentFolder (tree_path e)) (filter isSkillMd tree) = pre @ best # post
         \<and> (\<forall>p\<in>set pre. double_score (folderNameOf p) skillId
                            < double_score (folderNameOf best) skillId)
         \<and> (\<forall>p\<in>set post. double_score (folderNameOf p) skillId
                             \<le> double_score (folderNameOf best) skillId)
         \<and> (\<forall>p\<in>set (pre @ best # post).
               \<bar>double_score (folderNameOf p) skillId - exact_score (folderNameOf p) skillId\<bar>
                 \<le> 1 / 2 ^ 51)
         \<and> resolveFolder tree skillId =
             Returned
               (if to_double (3 / 10) \<le> double_score (folderNameOf best) skillId
                then \<lparr>folderPath = Some best, findError = None\<rparr>
                else \<lparr>folderPath = None,
                       findError = Some (''No matching skill folder found (best match: '' @
                         folderNameOf best @ '' at '' @
                         decimal (nat (round
                           (to_double (double_score (folderNameOf best) skillId * 100)))) @
                         ''%)'')\<rparr>)"
proof -
  let ?fs = "map (\<lambda>e. parentFolder (tree_path e)) (filter isSkillMd tree)"
  from assms(1) have exact: "exactCandidates tree skillId = []"
    by (auto simp: exactCandidates_suffix filter_empty_conv)
  from assms(2) have ne: "filter isSkillMd tree \<noteq> []"
    by (cases "filter isSkillMd tree") simp_all
  then have len: "length (filter isSkillMd tree) \<noteq> 0"
    by simp
  from assms(2) have len': "length ?fs \<noteq> 1"
    by simp
  from ne have fs_ne: "?fs \<noteq> []"
    by simp
  from assms(3) have ok: "\<forall>p\<in>set ?fs. token_set (folderNameOf p) \<noteq> {} \<or> token_set skillId \<noteq> {}"
    by simp
  from best_of_sorted [OF fs_ne ok] obtain pre best post rest where
    fs: "?fs = pre @ best # post"
    and sorted: "sort_candidates (map (score_candidate skillId) ?fs) =
                   score_candidate skillId best # rest"
    and pre: "\<forall>p\<in>set pre. double_score (folderNameOf p) skillId
                < double_score (folderNameOf best) skillId"
    and post: "\<forall>p\<in>set post. double_score (folderNameOf p) skillId
                \<le> double_score (folderNameOf best) skillId"
    by blast
  from ok fs have okb: "token_set (folderNameOf best) \<noteq> {} \<or> token_set skillId \<noteq> {}"
    by simp
  from ok have close: "\<forall>p\<in>set (pre @ best # post).
      \<bar>double_score (folderNameOf p) skillId - exact_score (folderNameOf p) skillId\<bar> \<le> 1 / 2 ^ 51"
    unfolding fs using double_score_close by blast
  have "resolveFolder tree skillId = fuzzyMatch ?fs skillId"
    using len len' by (simp add: resolveFolder_def exact Let_def)
  also have "\<dots> =
      Returned
        (if to_double (3 / 10) \<le> double_score (folderNameOf best) skillId
         then \<lparr>folderPath = Some best, findError = None\<rparr>
         else \<lparr>folderPath = None,
                findError = Some (''No matching skill folder found (best match: '' @
                  folderNameOf best @ '' at '' @
                  decimal (nat (round
                    (to_double (double_score (folderNameOf best) skillId * 100)))) @
                  ''%)'')\<rparr>)"
    unfolding fuzzyMatch_def sorted
    by (simp add: score_candidate_spec [OF okb] at_least_030_def percent_round)
  finally show ?thesis
    using fs pre post close by blast
qed

theorem fuzzy_tier_selection_witness:
  "\<not> (\<exists>d\<in>set two_skill_tree. tree_type d = ''tree'' \<and>
         (tree_path d = ''pdf-reader'' \<or> suffix (''/'' @ ''pdf-reader'') (tree_path d)))
   \<and> 2 \<le> length (filter isSkillMd two_skill_tree)
   \<and> token_set ''pdf-reader'' \<noteq> {}
   \<and> double_score ''pdf-tools'' ''pdf-reader'' = 1 / 2
   \<and> resolveFolder two_skill_tree ''pdf-reader'' =
       Returned \<lparr>folderPath = Some ''skills/pdf-tools'', findError = None\<rparr>
   \<and> \<not> (\<exists>d\<in>set two_skill_tree. tree_type d = ''tree'' \<and>
         (tree_path d = ''a-b-c-search'' \<or> suffix (''/'' @ ''a-b-c-search'') (tree_path d)))
   \<and> token_set ''a-b-c-search'' \<noteq> {}
   \<and> double_score ''web-search'' ''a-b-c-search'' = 1 / 4
   \<and> resolveFolder two_skill_tree ''a-b-c-search'' =
       Returned \<lparr>folderPath = None,
         findError = Some ''No matching skill folder found (best match: web-search at 25%)''\<rparr>
   \<and> \<not> (\<exists>d\<in>set two_skill_tree. tree_type d = ''tree'' \<and>
         (tree_path d = ''-'' \<or> suffix (''/'' @ ''-'') (tree_path d)))
   \<and> token_set ''-'' = {}
   \<and> list_all (\<lambda>e. token_set (folderNameOf (parentFolder (tree_path e))) \<noteq> {})
         (filter isSkillMd two_skill_tree)
   \<and> resolveFolder two_skill_tree ''-'' =
       Returned \<lparr>folderPath = Some ''skills/web-search'', findError = None\<rparr>"
proof -
  have "exactCandidates two_skill_tree ''-'' = []"
    by code_simp
  then have j1: "\<not> (\<exists>d\<in>set two_skill_tree. tree_type d = ''tree'' \<and>
         (tree_path d = ''-'' \<or> suffix (''/'' @ ''-'') (tree_path d)))"
    by (simp add: exactCandidates_suffix filter_empty_conv)
  have "tokens ''-'' = []"
    by code_simp
  then have j3: "token_set ''-'' = {}"
    by (simp add: set_tokens [symmetric])
  have "list_all (\<lambda>e. tokens (folderNameOf (parentFolder (tree_path e))) \<noteq> [])
         (filter isSkillMd two_skill_tree)"
    by code_simp
  then have j4: "list_all (\<lambda>e. token_set (folderNameOf (parentFolder (tree_path e))) \<noteq> {})
         (filter isSkillMd two_skill_tree)"
    by (simp add: set_tokens [symmetric])
  then have j4': "\<forall>e\<in>set (filter isSkillMd two_skill_tree).
      token_set (folderNameOf (parentFolder (tree_path e))) \<noteq> {} \<or> token_set ''-'' \<noteq> {}"
    by (simp add: list_all_iff)
  have r3: "resolveFolder two_skill_tree ''-'' =
       Returned \<lparr>folderPath = Some ''skills/web-search'', findError = None\<rparr>"
    by code_simp
  have "exactCandidates two_skill_tree ''pdf-reader'' = []"
    by code_simp
  then have h1: "\<not> (\<exists>d\<in>set two_skill_tree. tree_type d = ''tree'' \<and>
         (tree_path d = ''pdf-reader'' \<or> suffix (''/'' @ ''pdf-reader'') (tree_path d)))"
    by (simp add: exactCandidates_suffix filter_empty_conv)
  have "exactCandidates two_skill_tree ''a-b-c-search'' = []"
    by code_simp
  then have k1: "\<not> (\<exists>d\<in>set two_skill_tree. tree_type d = ''tree'' \<and>
         (tree_path d = ''a-b-c-search'' \<or> suffix (''/'' @ ''a-b-c-search'') (tree_path d)))"
    by (simp add: exactCandidates_suffix filter_empty_conv)
  have "length (filter isSkillMd two_skill_tree) = 2"
    by code_simp
  then have h2: "2 \<le> length (filter isSkillMd two_skill_tree)"
    by simp
  have "tokens ''pdf-reader'' = [''pdf'', ''reader'']"
    by code_simp
  then have h3: "token_set ''pdf-reader'' \<noteq> {}"
    by (simp add: set_tokens [symmetric])
  then have h3': "\<forall>e\<in>set (filter isSkillMd two_skill_tree).
      token_set (folderNameOf (parentFolder (tree_path e))) \<noteq> {} \<or> token_set ''pdf-reader'' \<noteq> {}"
    by simp
  have "tokens ''a-b-c-search'' = [''a'', ''b'', ''c'', ''search'']"
    by code_simp
  then have k3: "token_set ''a-b-c-search'' \<noteq> {}"
    by (simp add: set_tokens [symmetric])
  then have k3': "\<forall>e\<in>set (filter isSkillMd two_skill_tree).
      token_set (folderNameOf (parentFolder (tree_path e))) \<noteq> {} \<or> token_set ''a-b-c-search'' \<noteq> {}"
    by simp
  have "score_candidate ''pdf-reader'' ''skills/pdf-tools'' =
          \<lparr>cand_folderPath = ''skills/pdf-tools'', cand_folderName = ''pdf-tools'',
           cand_score = Some (1 / 2)\<rparr>"
    by code_simp
  then have "cand_score (score_candidate ''pdf-reader'' ''skills/pdf-tools'') = Some (1 / 2)"
    by simp
  moreover have "cand_score (score_candidate ''pdf-reader'' ''skills/pdf-tools'') =
      Some (double_score (folderNameOf ''skills/pdf-tools'') ''pdf-reader'')"
    by (simp add: score_candidate_spec h3)
  moreover have "folderNameOf ''skills/pdf-tools'' = ''pdf-tools''"
    by code_simp
  ultimately have s1: "double_score ''pdf-tools'' ''pdf-reader'' = 1 / 2"
    by simp
  have "score_candidate ''a-b-c-search'' ''skills/web-search'' =
          \<lparr>cand_folderPath = ''skills/web-search'', cand_folderName = ''web-search'',
           cand_score = Some (1 / 4)\<rparr>"
    by code_simp
  then have "cand_score (score_candidate ''a-b-c-search'' ''skills/web-search'') = Some (1 / 4)"
    by simp
  moreover have "cand_score (score_candidate ''a-b-c-search'' ''skills/web-search'') =
      Some (double_score (folderNameOf ''skills/web-search'') ''a-b-c-search'')"
    by (simp add: score_candidate_spec k3)
  moreover have "folderNameOf ''skills/web-search'' = ''web-search''"
    by code_simp
  ultimately have s2: "double_score ''web-search'' ''a-b-c-search'' = 1 / 4"
    by simp
  have r1: "resolveFolder two_skill_tree ''pdf-reader'' =
       Returned \<lparr>folderPath = Some ''skills/pdf-tools'', findError = None\<rparr>"
    by code_simp
  have r2: "resolveFolder two_skill_tree ''a-b-c-search'' =
       Returned \<lparr>folderPath = None,
         findError = Some ''No matching skill folder found (best match: web-search at 25%)''\<rparr>"
    by code_simp
  from fuzzy_tier_selection [OF h1 h2 h3'] fuzzy_tier_selection [OF k1 h2 k3']
    fuzzy_tier_selection [OF j1 h2 j4']
    h1 h2 h3 k1 k3 s1 s2 r1 r2 j1 j3 j4 r3
  show ?thesis by simp
qed

text \<open>
  The roundings of the source decide between candidates whose exact scores are equal.
  Against \<open>a-b-c-d-e-f\<close>, the folder \<open>a-b\<close> scores \<open>2/6 + 0.5\<close> and the folder
  \<open>f-e-d-c-b\<close> scores \<open>5/6\<close>; in doubles the sum is one unit in the last place below
  the quotient, and the second folder is returned. And a score of \<open>29/200\<close> is printed
  as 14 percent, its product with 100 being the double just below \<open>14.5\<close>.
\<close>

lemma double_rounding_decides:
  "to_double (to_double (2 / 6) + 1 / 2) < to_double (5 / 6)
   \<and> resolveFolder
       [\<lparr>tree_path = ''p/a-b/SKILL.md'', tree_type = ''blob''\<rparr>,
        \<lparr>tree_path = ''q/f-e-d-c-b/SKILL.md'', tree_type = ''blob''\<rparr>] ''a-b-c-d-e-f''
     = Returned \<lparr>folderPath = Some ''q/f-e-d-c-b'', findError = None\<rparr>
   \<and> percent (Some (to_double (29 / 200))) = ''14''"
  by code_simp

lemma empty_tokens_dropped:
  "tokens ''a--b-c'' = [''a'', ''b'', ''c''] \<and> split CHR ''-'' ''a--b-c'' = [''a'', [], ''b'', ''c'']"
  by code_simp

text \<open>
  The identifier \<open>owner/repo/\<close> has the empty skill name. With a manifest at the root
  of the repository, listed first, and another in \<open>x\<close>: the root candidate scores
  \<open>0 / 0\<close>, the candidate \<open>x\<close> scores \<open>0.5\<close> (the empty string occurs in \<open>x\<close>), and
  resolution returns a null path whose message carries no percentage.
\<close>

theorem fuzzy_nan_counterexample:
  "cand_score (score_candidate [] ''x'') = Some (1 / 2)
   \<and> resolveFolder
       [\<lparr>tree_path = ''SKILL.md'', tree_type = ''blob''\<rparr>,
        \<lparr>tree_path = ''x'', tree_type = ''tree''\<rparr>,
        \<lparr>tree_path = ''x/SKILL.md'', tree_type = ''blob''\<rparr>] []
     = Returned \<lparr>folderPath = None,
         findError = Some ''No matching skill folder found (best match:  at NaN%)''\<rparr>"
  by code_simp

section \<open>Properties of the orchestrator\<close>

lemma length_split: "length (split c s) = Suc (count_list s c)"
  by (induction s) (auto split: list.splits)

text \<open>
  Claim C6. A composite identifier with fewer than three \<open>/\<close>-separated segments makes
  \<open>fetchSkillDetails\<close>, in both entry points, return a result that echoes the
  identifier, has no files and carries the invalid-format message; the state of the
  process is the one it started in, so no request was issued and no credential taken.
\<close>

theorem malformed_identifier:
  assumes "length (split CHR ''/'' skillId) < 3"
  shows "fetchSkillDetails depth r githubTokens skillId w =
           (Returned \<lparr>res_id = skillId, res_files = [],
                      res_error = Some (invalid_format skillId)\<rparr>, w)
       \<and> fetchSkillDetails_http depth r githubTokens skillId w =
           (Returned \<lparr>res_id = skillId, res_files = [],
                      res_error = Some (invalid_format skillId)\<rparr>, w)
       \<and> requests (snd (fetchSkillDetails depth r githubTokens skillId w)) = requests w
       \<and> requests (snd (fetchSkillDetails_http depth r githubTokens skillId w)) = requests w"
  using assms by (simp add: fetchSkillDetails_def fetchSkillDetails_http_def failed_def)

theorem malformed_identifier_witness:
  "length (split CHR ''/'' ''owner/repo'') < 3
   \<and> fetchSkillDetails 3 rate_limited_remote [''t0''] ''owner/repo'' initial_world =
       (Returned \<lparr>res_id = ''owner/repo'', res_files = [],
                  res_error = Some (invalid_format ''owner/repo'')\<rparr>, initial_world)
   \<and> fetchSkillDetails_http 3 rate_limited_remote [''t0''] ''owner/repo'' initial_world =
       (Returned \<lparr>res_id = ''owner/repo'', res_files = [],
                  res_error = Some (invalid_format ''owner/repo'')\<rparr>, initial_world)"
proof -
  have h: "length (split CHR ''/'' ''owner/repo'') < 3"
    by (simp add: length_split)
  from malformed_identifier [OF h, of 3 rate_limited_remote "[''t0'']" initial_world] h
  show ?thesis by simp
qed

text \<open>
  Claim C1 says that \<open>fetchSkillDetails\<close> never throws. The code fetches the listing of
  the resolved folder before its \<open>try\<close> block: on \<open>rate_limited_remote\<close> the identifier
  \<open>o/r/c\<close> resolves to the folder \<open>c\<close>, whose listing is answered with 403, and the
  exception of \<open>fetchFolderContents\<close> leaves \<open>fetchSkillDetails\<close>, in both entry points.
\<close>

theorem initial_listing_403_throws:
  "fst (fetchSkillDetails 3 rate_limited_remote [] ''o/r/c'' initial_world) =
     Threw ''GitHub rate limit exceeded''
   \<and> fst (fetchSkillDetails_http 3 rate_limited_remote [] ''o/r/c'' initial_world) =
     Threw ''GitHub rate limit exceeded''"
  by code_simp

text \<open>
  The exceptions of the collection itself are caught: once the folder's listing has
  arrived, \<open>fetchSkillDetails\<close> does not throw.
\<close>

lemma collection_errors_caught:
  "fetchFolderContents r githubTokens source fp w = (Returned (Some folderItems), w') \<Longrightarrow>
     fst (fetchResolved depth r githubTokens skillId source fp w) \<noteq> Threw m"
  by (cases "collectFiles depth r githubTokens source folderItems w'")
     (auto simp: fetchResolved_def split: outcome.splits)

text \<open>
  When no call throws or is cut off, \<open>Promise.all\<close> hands the handler one value per
  identifier, in the order of the identifiers.
\<close>

lemma length_fetchEach: "length (fst (fetchEach f ids w)) = length ids"
  by (induction ids arbitrary: w) (simp_all add: split_beta)

lemma promise_all_Returned: "promise_all xs = Returned vs \<Longrightarrow> xs = map Returned vs"
proof (induction xs arbitrary: vs)
  case Nil
  then show ?case by simp
next
  case (Cons x xs)
  then show ?case
    by (cases x) (auto split: outcome.splits)
qed

text \<open>
  Claim C8 says that a batch yields one result per identifier. In the code, an exception
  that leaves \<open>fetchSkillDetails\<close> rejects \<open>Promise.all\<close>, and the handler answers with
  an error response that holds no result at all. On \<open>mixed_remote\<close>, \<open>o/r/c\<close> alone
  yields its file and the malformed \<open>bad\<close> alone yields its invalid-format result, but
  the batch of these two with \<open>p/q/c\<close>, whose folder listing is answered with 403,
  yields neither.
\<close>

theorem batch_lost_on_403:
  "fst (fetchSkillDetails 3 mixed_remote [] ''o/r/c'' initial_world) =
     Returned \<lparr>res_id = ''o/r/c'',
       res_files = [\<lparr>file_path = ''c/SKILL.md'', file_name = ''SKILL.md'',
                     file_content = ''# skill''\<rparr>],
       res_error = None\<rparr>
   \<and> fst (fetchSkillDetails 3 mixed_remote [] ''bad'' initial_world) =
     Returned \<lparr>res_id = ''bad'', res_files = [], res_error = Some (invalid_format ''bad'')\<rparr>
   \<and> fst (get_skill_details 3 mixed_remote [] [''o/r/c'', ''bad'', ''p/q/c''] initial_world) =
     Some (ToolError ''Error: GitHub rate limit exceeded'')
   \<and> fst (get_skill_details_http 3 mixed_remote [] [''o/r/c'', ''bad'', ''p/q/c''] initial_world) =
     Some (ToolError ''Failed to fetch skill details: GitHub rate limit exceeded'')"
  by code_simp

section \<open>Properties of the recursive collector\<close>

lemma non_null_downloadAll:
  "non_null (fst (downloadAll r es w)) = map (record_of r) (filter (downloadable r) es)"
proof (induction es arbitrary: w)
  case Nil
  show ?case by simp
next
  case (Cons e es)
  show ?case
  proof (cases "downloadable r e")
    case True
    then obtain t where "truthy (download_url e)"
      "raw_api r (or_empty (download_url e)) = RawOk t"
      by (auto simp: downloadable_def split: raw_response.splits)
    then have "fst (downloadEntry r e w) = Some (record_of r e)"
      by (simp add: downloadEntry_def fetchFileContent_def record_of_def)
    with True Cons.IH show ?thesis
      by (simp add: split_beta)
  next
    case False
    then have "fst (downloadEntry r e w) = None"
      by (auto simp: downloadable_def downloadEntry_def fetchFileContent_def
            split: raw_response.splits)
    with False Cons.IH show ?thesis
      by (simp add: split_beta)
  qed
qed

lemma collectDirs_extends:
  "collectDirs recurse r ts src dirs files w = (Returned fs, w') \<Longrightarrow> \<exists>sub. fs = files @ sub"
proof (induction dirs arbitrary: files w)
  case Nil
  then show ?case by simp
next
  case (Cons d ds)
  show ?case
  proof (cases "truthy (item_path d)")
    case False
    with Cons show ?thesis by simp
  next
    case True
    obtain x w1 where f: "fetchFolderContents r ts src (or_empty (item_path d)) w = (x, w1)"
      by (cases "fetchFolderContents r ts src (or_empty (item_path d)) w")
    show ?thesis
    proof (cases x)
      case (Returned listing)
      show ?thesis
      proof (cases listing)
        case None
        with Cons True f Returned show ?thesis by simp
      next
        case (Some subItems)
        obtain y w2 where c: "recurse subItems w1 = (y, w2)"
          by (cases "recurse subItems w1")
        show ?thesis
        proof (cases y)
          case (Returned subFiles)
          with Cons.prems True f \<open>x = Returned listing\<close> Some c
          have "collectDirs recurse r ts src ds (files @ subFiles) w2 = (Returned fs, w')"
            by simp
          from Cons.IH [OF this] show ?thesis by auto
        next
          case (Threw m)
          with Cons.prems True f \<open>x = Returned listing\<close> Some c show ?thesis by simp
        next
          case Diverged
          with Cons.prems True f \<open>x = Returned listing\<close> Some c show ?thesis by simp
        qed
      qed
    next
      case (Threw m)
      with Cons.prems True f show ?thesis by simp
    next
      case Diverged
      with Cons.prems True f show ?thesis by simp
    qed
  qed
qed

lemma fst_fetchFolderContents:
  "fst (fetchFolderContents r ts src path w) = listing_of r src path"
  by (simp add: fetchFolderContents_def listing_of_def Let_def split: contents_response.splits)

lemma fst_collectDirs:
  assumes "\<And>subItems w. fst (recurse subItems w) = spec subItems"
  shows "fst (collectDirs recurse r ts src dirs files w) =
           merged files
             (map (\<lambda>dir. case listing_of r src (or_empty (item_path dir)) of
                            Returned None \<Rightarrow> Returned []
                          | Returned (Some subItems) \<Rightarrow> spec subItems
                          | Threw m \<Rightarrow> Threw m
                          | Diverged \<Rightarrow> Diverged)
                (filter (\<lambda>f. truthy (item_path f)) dirs))"
proof (induction dirs arbitrary: files w)
  case Nil
  show ?case by simp
next
  case (Cons d ds)
  show ?case
  proof (cases "truthy (item_path d)")
    case False
    with Cons show ?thesis by simp
  next
    case True
    obtain x w1 where f: "fetchFolderContents r ts src (or_empty (item_path d)) w = (x, w1)"
      by (cases "fetchFolderContents r ts src (or_empty (item_path d)) w")
    with fst_fetchFolderContents [of r ts src "or_empty (item_path d)" w]
    have l: "listing_of r src (or_empty (item_path d)) = x"
      by simp
    show ?thesis
    proof (cases x)
      case (Returned listing)
      show ?thesis
      proof (cases listing)
        case None
        with True f l Returned Cons.IH show ?thesis by simp
      next
        case (Some subItems)
        obtain y w2 where c: "recurse subItems w1 = (y, w2)"
          by (cases "recurse subItems w1")
        with assms [of subItems w1] have s: "spec subItems = y"
          by simp
        show ?thesis
          using True f l Returned Some c s Cons.IH by (cases y) simp_all
      qed
    next
      case (Threw m)
      with True f l show ?thesis by simp
    next
      case Diverged
      with True f l show ?thesis by simp
    qed
  qed
qed

lemma fst_collectFiles:
  "fst (collectFiles depth r ts src items w) = collected depth r src items"
proof (induction depth arbitrary: items w)
  case 0
  show ?case by simp
next
  case (Suc depth)
  show ?case
    by (simp add: split_beta Let_def non_null_downloadAll
          fst_collectDirs [where spec = "collected depth r src", OF Suc.IH])
qed

lemma merged_append:
  "merged (acc @ xs) ys =
     (case merged xs ys of Returned sub \<Rightarrow> Returned (acc @ sub) | Threw m \<Rightarrow> Threw m
      | Diverged \<Rightarrow> Diverged)"
proof (induction ys arbitrary: xs)
  case Nil
  show ?case by simp
next
  case (Cons y ys)
  show ?case
    using Cons [of "xs @ _"] by (cases y) (simp_all flip: append_assoc)
qed

text \<open>
  Claim C7. For every listing, the outcome of \<open>collectFiles\<close> is that of the stateless
  collector \<open>collected\<close>: the records of the listing's file entries that can be
  downloaded, one per such entry and in the order of the listing, followed by the output
  of the subdirectories. So the output of a listing is these records followed by the
  output of the listing stripped of everything but its subdirectories, and it is an
  exception (or a run cut off) exactly when the subdirectories alone give one: an entry
  without a download reference, or whose download fails, leaves neither a record nor an
  error. Whenever \<open>collectFiles\<close> returns, its output starts with these records, and a
  listing without subdirectories always returns exactly them. The downloader itself maps
  every failure to \<open>null\<close>.
\<close>

theorem collector_keeps_downloaded_files:
  "fst (collectFiles depth r githubTokens source items w) = collected depth r source items
   \<and> fst (collectFiles (Suc depth) r githubTokens source items w) =
       (case fst (collectFiles (Suc depth) r githubTokens source
                    (filter (\<lambda>f. item_type f = ''dir'') items) w') of
          Returned sub \<Rightarrow>
            Returned (map (record_of r)
                        (filter (downloadable r) (filter (\<lambda>f. item_type f = ''file'') items)) @ sub)
        | Threw m \<Rightarrow> Threw m
        | Diverged \<Rightarrow> Diverged)
   \<and> (\<forall>fs w'. collectFiles (Suc depth) r githubTokens source items w = (Returned fs, w') \<longrightarrow>
      (\<exists>sub. fs = map (record_of r)
                     (filter (downloadable r) (filter (\<lambda>f. item_type f = ''file'') items)) @ sub))
   \<and> (filter (\<lambda>f. item_type f = ''dir'') items = [] \<longrightarrow>
        fst (collectFiles (Suc depth) r githubTokens source items w) =
          Returned (map (record_of r)
                      (filter (downloadable r) (filter (\<lambda>f. item_type f = ''file'') items))))
   \<and> fst (fetchFileContent r url w) =
        (case raw_api r url of RawOk t \<Rightarrow> Some t | RawNotOk \<Rightarrow> None | RawRejected \<Rightarrow> None)"
proof (intro conjI allI impI)
  show "fst (collectFiles depth r githubTokens source items w) = collected depth r source items"
    by (rule fst_collectFiles)
next
  let ?direct = "map (record_of r)
                   (filter (downloadable r) (filter (\<lambda>f. item_type f = ''file'') items))"
  have none: "filter (\<lambda>f. item_type f = ''file'') (filter (\<lambda>f. item_type f = ''dir'') items) = []"
    by (auto simp: filter_empty_conv)
  have "collected (Suc depth) r source items =
      (case collected (Suc depth) r source (filter (\<lambda>f. item_type f = ''dir'') items) of
         Returned sub \<Rightarrow> Returned (?direct @ sub) | Threw m \<Rightarrow> Threw m | Diverged \<Rightarrow> Diverged)"
    using merged_append [of ?direct "[]"] by (simp add: none)
  then show "fst (collectFiles (Suc depth) r githubTokens source items w) =
       (case fst (collectFiles (Suc depth) r githubTokens source
                    (filter (\<lambda>f. item_type f = ''dir'') items) w') of
          Returned sub \<Rightarrow> Returned (?direct @ sub)
        | Threw m \<Rightarrow> Threw m
        | Diverged \<Rightarrow> Diverged)"
    by (simp only: fst_collectFiles)
next
  fix fs w'
  assume "collectFiles (Suc depth) r githubTokens source items w = (Returned fs, w')"
  then have "\<exists>sub. fs = non_null (fst (downloadAll r (filter (\<lambda>f. item_type f = ''file'') items) w)) @ sub"
    by (auto simp: split_beta Let_def dest: collectDirs_extends)
  then show "\<exists>sub. fs = map (record_of r)
                     (filter (downloadable r) (filter (\<lambda>f. item_type f = ''file'') items)) @ sub"
    by (simp only: non_null_downloadAll)
next
  assume "filter (\<lambda>f. item_type f = ''dir'') items = []"
  then have "fst (collectFiles (Suc depth) r githubTokens source items w) =
      Returned (non_null (fst (downloadAll r (filter (\<lambda>f. item_type f = ''file'') items) w)))"
    by (simp add: split_beta Let_def)
  then show "fst (collectFiles (Suc depth) r githubTokens source items w) =
          Returned (map (record_of r)
                      (filter (downloadable r) (filter (\<lambda>f. item_type f = ''file'') items)))"
    by (simp only: non_null_downloadAll)
next
  show "fst (fetchFileContent r url w) =
        (case raw_api r url of RawOk t \<Rightarrow> Some t | RawNotOk \<Rightarrow> None | RawRejected \<Rightarrow> None)"
    by (simp add: fetchFileContent_def split: raw_response.splits)
qed

theorem collector_keeps_downloaded_files_witness:
  "filter (\<lambda>f. item_type f = ''dir'') three_files = []
   \<and> fst (collectFiles (Suc 0) mixed_remote [] ''o/r'' three_files initial_world) =
       Returned [\<lparr>file_path = ''s/b.md'', file_name = ''b.md'', file_content = ''# skill''\<rparr>,
                 \<lparr>file_path = ''s/c.md'', file_name = ''c.md'', file_content = ''# skill''\<rparr>]
   \<and> filter (\<lambda>f. item_type f = ''dir'') (three_files @ [gone_file]) = []
   \<and> fst (collectFiles (Suc 0) mixed_remote [] ''o/r'' (three_files @ [gone_file]) initial_world) =
       Returned [\<lparr>file_path = ''s/b.md'', file_name = ''b.md'', file_content = ''# skill''\<rparr>,
                 \<lparr>file_path = ''s/c.md'', file_name = ''c.md'', file_content = ''# skill''\<rparr>]
   \<and> fst (collectFiles (Suc (Suc 0)) mixed_remote [] ''o/r'' nested_listing initial_world) =
       Returned [\<lparr>file_path = ''b.md'', file_name = ''b.md'', file_content = ''# skill''\<rparr>,
                 \<lparr>file_path = ''c/SKILL.md'', file_name = ''SKILL.md'',
                   file_content = ''# skill''\<rparr>]
   \<and> fst (collectFiles (Suc (Suc 0)) mixed_remote [] ''p/q'' nested_listing initial_world) =
       Threw ''GitHub rate limit exceeded''"
proof -
  have h': "filter (\<lambda>f. item_type f = ''dir'') (three_files @ [gone_file]) = []"
    by code_simp
  have m': "map (record_of mixed_remote)
             (filter (downloadable mixed_remote)
                (filter (\<lambda>f. item_type f = ''file'') (three_files @ [gone_file]))) =
           [\<lparr>file_path = ''s/b.md'', file_name = ''b.md'', file_content = ''# skill''\<rparr>,
            \<lparr>file_path = ''s/c.md'', file_name = ''c.md'', file_content = ''# skill''\<rparr>]"
    by code_simp
  have h: "filter (\<lambda>f. item_type f = ''dir'') three_files = []"
    by code_simp
  have m: "map (record_of mixed_remote)
             (filter (downloadable mixed_remote)
                (filter (\<lambda>f. item_type f = ''file'') three_files)) =
           [\<lparr>file_path = ''s/b.md'', file_name = ''b.md'', file_content = ''# skill''\<rparr>,
            \<lparr>file_path = ''s/c.md'', file_name = ''c.md'', file_content = ''# skill''\<rparr>]"
    by code_simp
  have n1: "collected (Suc (Suc 0)) mixed_remote ''o/r'' nested_listing =
       Returned [\<lparr>file_path = ''b.md'', file_name = ''b.md'', file_content = ''# skill''\<rparr>,
                 \<lparr>file_path = ''c/SKILL.md'', file_name = ''SKILL.md'',
                   file_content = ''# skill''\<rparr>]"
    by code_simp
  have n2: "collected (Suc (Suc 0)) mixed_remote ''p/q'' nested_listing =
       Threw ''GitHub rate limit exceeded''"
    by code_simp
  from collector_keeps_downloaded_files
         [of 0 mixed_remote "[]" "''o/r''" three_files initial_world]
       collector_keeps_downloaded_files
         [of 0 mixed_remote "[]" "''o/r''" "three_files @ [gone_file]" initial_world]
       collector_keeps_downloaded_files
         [of "Suc (Suc 0)" mixed_remote "[]" "''o/r''" nested_listing initial_world]
       collector_keeps_downloaded_files
         [of "Suc (Suc 0)" mixed_remote "[]" "''p/q''" nested_listing initial_world]
       h m h' m' n1 n2
  show ?thesis by simp
qed

end
